theory Spec2Isabelle
  imports Complex_Main "HOL-Library.AList" "HOL-Library.Sublist"
begin

section \<open>JavaScript values\<close>

text \<open>
  The plugin reads a loosely typed options object, so the embedding keeps the values
  dynamically typed. An object is an association list of its own data properties in
  insertion order; reading a missing property gives \<open>Undefined\<close>. A function value is a
  name: the two defaults of \<open>DEFAULT_OPTIONS\<close>, the closure \<open>path => add(path, shortcut)\<close>
  that \<open>processShortcuts\<close> builds, or a function supplied by the user, which is looked up
  in the environment. Boxed \<open>String\<close> and \<open>Number\<close> objects, symbols, getters and
  prototype chains are not part of the value universe. An \<open>assert\<close> that fails is an
  \<open>AssertionError\<close> with the source's message; \<open>Unmodelled\<close> marks an input on which the
  source's behaviour lies outside this development, and no theorem speaks about it.
\<close>

datatype error =
    AssertionError string
  | TypeError
  | Unmodelled

datatype jsnum = Finite real | NaN | PosInfinity | NegInfinity

datatype fn =
    UserFn nat
  | DefaultAddHash
  | DefaultAddPublicPath
  | ShortcutFn fn string

datatype jsval =
    Undefined
  | Null
  | Bool bool
  | Num jsnum
  | Str string
  | Arr "jsval list"
  | Obj "(string \<times> jsval) list"
  | Fun fn

type_synonym jsobj = "(string \<times> jsval) list"

text \<open>
  The collaborators the source imports (\<open>path\<close>, \<open>slash\<close>, \<open>glob\<close>, \<open>minimatch\<close>), the
  language's string coercion of a value that is not a string, and the behaviour of the
  user's functions are parameters of the model. User functions are pure and return a
  value.
\<close>

record env =
  path_join :: "string \<Rightarrow> string \<Rightarrow> string"
  slash :: "string \<Rightarrow> string"
  glob_sync :: "string \<Rightarrow> string \<Rightarrow> string list"
  minimatch :: "string \<Rightarrow> string \<Rightarrow> bool"
  to_string :: "jsval \<Rightarrow> string"
  user_fn :: "nat \<Rightarrow> jsval \<Rightarrow> jsval \<Rightarrow> jsval"
  addFileToAssets :: "string \<Rightarrow> error option"

definition get :: "jsobj \<Rightarrow> string \<Rightarrow> jsval" where
  "get obj k = (case map_of obj k of None \<Rightarrow> Undefined | Some v \<Rightarrow> v)"

definition to_str :: "env \<Rightarrow> jsval \<Rightarrow> string" where
  "to_str env v = (case v of Str s \<Rightarrow> s | _ \<Rightarrow> to_string env v)"

definition truthy :: "jsval \<Rightarrow> bool" where
  "truthy v =
     (case v of
        Undefined \<Rightarrow> False
      | Null \<Rightarrow> False
      | Bool b \<Rightarrow> b
      | Num n \<Rightarrow> (case n of Finite r \<Rightarrow> r \<noteq> 0 | NaN \<Rightarrow> False | _ \<Rightarrow> True)
      | Str s \<Rightarrow> s \<noteq> []
      | _ \<Rightarrow> True)"

subsection \<open>The predicate library \<open>IS\<close>\<close>

definition isDefined :: "jsval \<Rightarrow> bool" where
  "isDefined v = (case v of Undefined \<Rightarrow> False | _ \<Rightarrow> True)"

definition isObject :: "jsval \<Rightarrow> bool" where
  "isObject v = (case v of Obj _ \<Rightarrow> True | _ \<Rightarrow> False)"

definition isBoolean :: "jsval \<Rightarrow> bool" where
  "isBoolean v = (case v of Bool _ \<Rightarrow> True | _ \<Rightarrow> False)"

definition isNumber :: "jsval \<Rightarrow> bool" where
  "isNumber v = (case v of Num (Finite _) \<Rightarrow> True | _ \<Rightarrow> False)"

definition isString :: "jsval \<Rightarrow> bool" where
  "isString v = (case v of Str _ \<Rightarrow> True | _ \<Rightarrow> False)"

definition isArray :: "jsval \<Rightarrow> bool" where
  "isArray v = (case v of Arr _ \<Rightarrow> True | _ \<Rightarrow> False)"

definition isFunction :: "jsval \<Rightarrow> bool" where
  "isFunction v = (case v of Fun _ \<Rightarrow> True | _ \<Rightarrow> False)"

definition isValidAttributeValue :: "jsval \<Rightarrow> bool" where
  "isValidAttributeValue v = (isString v \<or> isBoolean v \<or> isNumber v)"

definition isType :: "jsval \<Rightarrow> bool" where
  "isType t = (case t of Str s \<Rightarrow> s = ''css'' \<or> s = ''js'' | _ \<Rightarrow> False)"

definition isTypeCss :: "jsval \<Rightarrow> bool" where
  "isTypeCss t = (case t of Str s \<Rightarrow> s = ''css'' | _ \<Rightarrow> False)"

definition isArrayOfString :: "jsval \<Rightarrow> bool" where
  "isArrayOfString v = (case v of Arr xs \<Rightarrow> list_all isString xs | _ \<Rightarrow> False)"

subsection \<open>Calling a function value\<close>

text \<open>
  \<open>path.join\<close> throws a \<open>TypeError\<close> on an argument that is not a string; \<open>slash\<close> calls
  \<open>replace\<close> on its argument, which a value that is not a string does not have.
  \<open>assetPath + '?' + hash\<close> concatenates the string coercions of its operands.
\<close>

definition js_path_join :: "env \<Rightarrow> jsval \<Rightarrow> jsval \<Rightarrow> error + jsval" where
  "js_path_join env a b =
     (case a of
        Str x \<Rightarrow> (case b of Str y \<Rightarrow> Inr (Str (path_join env x y)) | _ \<Rightarrow> Inl TypeError)
      | _ \<Rightarrow> Inl TypeError)"

definition js_slash :: "env \<Rightarrow> jsval \<Rightarrow> error + string" where
  "js_slash env v = (case v of Str s \<Rightarrow> Inr (slash env s) | _ \<Rightarrow> Inl TypeError)"

fun callFn :: "env \<Rightarrow> fn \<Rightarrow> jsval \<Rightarrow> jsval \<Rightarrow> error + jsval" where
  "callFn env (UserFn n) a b = Inr (user_fn env n a b)"
| "callFn env DefaultAddHash assetPath hash =
     Inr (Str (to_str env assetPath @ ''?'' @ to_str env hash))"
| "callFn env DefaultAddPublicPath assetPath publicPath = js_path_join env publicPath assetPath"
| "callFn env (ShortcutFn add shortcut) p b = callFn env add p (Str shortcut)"

text \<open>Calling a value that is not a function throws a \<open>TypeError\<close>.\<close>

definition call :: "env \<Rightarrow> jsval \<Rightarrow> jsval \<Rightarrow> jsval \<Rightarrow> error + jsval" where
  "call env v a b = (case v of Fun f \<Rightarrow> callFn env f a b | _ \<Rightarrow> Inl TypeError)"

definition isFunctionReturningString :: "env \<Rightarrow> jsval \<Rightarrow> error + bool" where
  "isFunctionReturningString env v =
     (if isFunction v then
        (case call env v (Str []) (Str []) of Inl e \<Rightarrow> Inl e | Inr r \<Rightarrow> Inr (isString r))
      else Inr False)"

text \<open>\<open>isBoolean(v) || isFunctionReturningString(v)\<close>, as the tag and shortcut checks use it.\<close>

definition isBooleanOrFunctionReturningString :: "env \<Rightarrow> jsval \<Rightarrow> error + bool" where
  "isBooleanOrFunctionReturningString env v =
     (if isBoolean v then Inr True else isFunctionReturningString env v)"

section \<open>Tag descriptor normalizer\<close>

text \<open>
  \<open>getTagObjects\<close>, lines 115 to 165. The checks of an object tag up to the glob branch
  are \<open>checkTagFields\<close>: it returns the first assertion that fails, in the source's order.
\<close>

definition checkTagFields :: "env \<Rightarrow> jsobj \<Rightarrow> string \<Rightarrow> string \<Rightarrow> error option" where
  "checkTagFields env tag optionName optionPath =
     (if \<not> isString (get tag ''path'') then
        Some (AssertionError (optionPath @ ''.'' @ optionName @ '' object must have a string path property''))
      else if isDefined (get tag ''append'') \<and> \<not> isBoolean (get tag ''append'') then
        Some (AssertionError (optionPath @ ''.'' @ optionName @ '' object append should be a boolean''))
      else
        (case (if isDefined (get tag ''publicPath'')
               then isBooleanOrFunctionReturningString env (get tag ''publicPath'') else Inr True) of
           Inl e \<Rightarrow> Some e
         | Inr False \<Rightarrow>
             Some (AssertionError (optionPath @ ''.'' @ optionName @
               '' object publicPath should be a boolean or function that returns a string''))
         | Inr True \<Rightarrow>
        (case (if isDefined (get tag ''hash'')
               then isBooleanOrFunctionReturningString env (get tag ''hash'') else Inr True) of
           Inl e \<Rightarrow> Some e
         | Inr False \<Rightarrow>
             Some (AssertionError (optionPath @ ''.'' @ optionName @
               '' object hash should be a boolean or function that returns a string''))
         | Inr True \<Rightarrow>
        (if isDefined (get tag ''sourcePath'') \<and> \<not> isString (get tag ''sourcePath'') then
           Some (AssertionError (optionPath @ ''.'' @ optionName @
             '' object should have a string sourcePath property''))
         else
           (case get tag ''attributes'' of
              Undefined \<Rightarrow> None
            | Obj attributes \<Rightarrow>
                (if list_all (\<lambda>attribute. isValidAttributeValue (get attributes attribute))
                      (map fst attributes)
                 then None
                 else Some (AssertionError (optionPath @ ''.'' @ optionName @
                   '' object attribute values should be strings, booleans or numbers'')))
            | _ \<Rightarrow>
                Some (AssertionError (optionPath @ ''.'' @ optionName @
                  '' object should have an object attributes property'')))))))"

definition getTagObjects :: "env \<Rightarrow> jsval \<Rightarrow> string \<Rightarrow> string \<Rightarrow> error + jsobj list" where
  "getTagObjects env tag optionName optionPath =
     (case tag of
        Str s \<Rightarrow> Inr [[(''path'', Str s)]]
      | Obj t \<Rightarrow>
          (case checkTagFields env t optionName optionPath of
             Some e \<Rightarrow> Inl e
           | None \<Rightarrow>
               if isDefined (get t ''glob'') \<or> isDefined (get t ''globPath'') then
                 (let otherAssetProperties = AList.delete ''globPath'' (AList.delete ''glob'' t) in
                  case get t ''glob'' of
                    Str assetGlob \<Rightarrow>
                      (case get t ''globPath'' of
                         Str globPath \<Rightarrow>
                           (let globAssets = glob_sync env assetGlob globPath;
                                globAssetPaths =
                                  map (\<lambda>globAsset. slash env (path_join env (to_str env (get t ''path'')) globAsset))
                                    globAssets
                            in if \<not> length globAssetPaths > 0 then
                                 Inl (AssertionError (optionPath @ ''.'' @ optionName @
                                   '' object glob found no files ('' @ to_str env (get t ''path'') @ '' '' @
                                   assetGlob @ '' '' @ globPath @ '')''))
                               else
                                 Inr (map (\<lambda>globAssetPath.
                                        AList.update ''path'' (Str globAssetPath) otherAssetProperties)
                                      globAssetPaths))
                       | _ \<Rightarrow>
                           Inl (AssertionError (optionPath @ ''.'' @ optionName @
                             '' object should have a string globPath property'')))
                  | _ \<Rightarrow>
                      Inl (AssertionError (optionPath @ ''.'' @ optionName @
                        '' object should have a string glob property'')))
               else Inr [t])
      | _ \<Rightarrow>
          Inl (AssertionError (optionPath @ ''.'' @ optionName @ '' items must be an object or string'')))"

section \<open>Extension classifier\<close>

definition DEFAULT_OPTIONS :: jsobj where
  "DEFAULT_OPTIONS =
     [(''append'', Bool True),
      (''useHash'', Bool False),
      (''addHash'', Fun DefaultAddHash),
      (''usePublicPath'', Bool True),
      (''addPublicPath'', Fun DefaultAddPublicPath),
      (''jsExtensions'', Arr [Str ''.js'']),
      (''cssExtensions'', Arr [Str ''.css'']),
      (''tags'', Arr []),
      (''links'', Arr []),
      (''scripts'', Arr [])]"

text \<open>
  \<open>createExtensionsRegex\<close> compiles the source text \<open>.*(e1|...|en)$\<close>, the extensions
  joined by \<open>|\<close> as they are written. The model reads the text between the parentheses
  the way the regular-expression grammar does, for the syntax an extension list needs:
  \<open>|\<close> separates alternatives, \<open>.\<close> is the wildcard, a backslash makes the syntax
  character after it a literal, and any other character that is not a syntax character
  is a literal. A pattern with other syntax is \<open>Unmodelled\<close>. So a compiled pattern is
  the list of its alternatives, each a list of atoms.
\<close>

datatype atom = AnyChar | Lit char

type_synonym regexp = "atom list list"

fun join :: "env \<Rightarrow> string \<Rightarrow> jsval list \<Rightarrow> string" where
  "join env sep [] = []"
| "join env sep [x] = (case x of Undefined \<Rightarrow> [] | Null \<Rightarrow> [] | _ \<Rightarrow> to_str env x)"
| "join env sep (x # y # ys) =
     (case x of Undefined \<Rightarrow> [] | Null \<Rightarrow> [] | _ \<Rightarrow> to_str env x) @ sep @ join env sep (y # ys)"

definition isSyntaxCharacter :: "char \<Rightarrow> bool" where
  "isSyntaxCharacter c = (c \<in> set ''^$.*+?()[]{}|'' \<or> c = CHR 0x5C)"

definition consAtom :: "atom \<Rightarrow> regexp option \<Rightarrow> regexp option" where
  "consAtom a r =
     (case r of
        Some (alternative # alternatives) \<Rightarrow> Some ((a # alternative) # alternatives)
      | _ \<Rightarrow> None)"

fun parseDisjunction :: "string \<Rightarrow> regexp option" where
  "parseDisjunction [] = Some [[]]"
| "parseDisjunction (c # cs) =
     (if c = CHR ''|'' then map_option (\<lambda>alternatives. [] # alternatives) (parseDisjunction cs)
      else if c = CHR ''.'' then consAtom AnyChar (parseDisjunction cs)
      else if c = CHR 0x5C then
        (case cs of
           [] \<Rightarrow> None
         | d # ds \<Rightarrow>
             if isSyntaxCharacter d \<or> d = CHR ''/'' then consAtom (Lit d) (parseDisjunction ds)
             else None)
      else if isSyntaxCharacter c then None
      else consAtom (Lit c) (parseDisjunction cs))"

definition createExtensionsRegex :: "env \<Rightarrow> jsval \<Rightarrow> error + regexp" where
  "createExtensionsRegex env extensions =
     (case extensions of
        Arr xs \<Rightarrow>
          (case parseDisjunction (join env ''|'' xs) of
             None \<Rightarrow> Inl Unmodelled
           | Some r \<Rightarrow> Inr r)
      | _ \<Rightarrow> Inl TypeError)"

text \<open>
  \<open>regexp.test(value)\<close>. The wildcard matches any character but a line terminator (of
  the four line terminators, the two that are 8-bit characters exist in the model). The
  search tries every start position (\<open>regexTest\<close>); from a start position \<open>.*\<close> takes
  any number of characters that are not line terminators (\<open>matchFrom\<close>); then one
  alternative has to match up to the end of the input (\<open>matchGroupEnd\<close>).
\<close>

definition isLineTerminator :: "char \<Rightarrow> bool" where
  "isLineTerminator c = (c = CHR 0x0A \<or> c = CHR 0x0D)"

fun matchAtom :: "atom \<Rightarrow> char \<Rightarrow> bool" where
  "matchAtom AnyChar c = (\<not> isLineTerminator c)"
| "matchAtom (Lit a) c = (c = a)"

fun matchAtoms :: "atom list \<Rightarrow> string \<Rightarrow> string option" where
  "matchAtoms [] s = Some s"
| "matchAtoms (a # as) [] = None"
| "matchAtoms (a # as) (c # cs) = (if matchAtom a c then matchAtoms as cs else None)"

definition matchGroupEnd :: "regexp \<Rightarrow> string \<Rightarrow> bool" where
  "matchGroupEnd alternatives s = list_ex (\<lambda>alternative. matchAtoms alternative s = Some []) alternatives"

fun matchFrom :: "regexp \<Rightarrow> string \<Rightarrow> bool" where
  "matchFrom r [] = matchGroupEnd r []"
| "matchFrom r (c # cs) = (matchGroupEnd r (c # cs) \<or> (\<not> isLineTerminator c \<and> matchFrom r cs))"

fun regexTest :: "regexp \<Rightarrow> string \<Rightarrow> bool" where
  "regexTest r [] = matchFrom r []"
| "regexTest r (c # cs) = (matchFrom r (c # cs) \<or> regexTest r cs)"

definition getExtensions :: "env \<Rightarrow> jsobj \<Rightarrow> string \<Rightarrow> string \<Rightarrow> error + jsval" where
  "getExtensions env options optionExtensionName optionPath =
     (let extensions = get options optionExtensionName in
      if isDefined extensions then
        if isString extensions then Inr (Arr [extensions])
        else
          (case extensions of
             Arr xs \<Rightarrow>
               (case find (\<lambda>extension. \<not> isString extension) xs of
                  Some extension \<Rightarrow>
                    Inl (AssertionError (optionPath @ ''.'' @ optionExtensionName @
                      '' array should only contain strings ('' @ to_str env extension @ '')''))
                | None \<Rightarrow> Inr extensions)
           | _ \<Rightarrow>
               Inl (AssertionError (optionPath @ ''.'' @ optionExtensionName @
                 '' should be a string or array of strings ('' @ to_str env extensions @ '')'')))
      else Inr (get DEFAULT_OPTIONS optionExtensionName))"

definition getHasExtensions :: "env \<Rightarrow> jsobj \<Rightarrow> string \<Rightarrow> string \<Rightarrow> error + regexp" where
  "getHasExtensions env options optionExtensionName optionPath =
     (case getExtensions env options optionExtensionName optionPath of
        Inl e \<Rightarrow> Inl e
      | Inr extensions \<Rightarrow> createExtensionsRegex env extensions)"

text \<open>The two checkers of \<open>getAssetTypeCheckers\<close>, as the pair (JS pattern, CSS pattern).\<close>

definition getAssetTypeCheckers :: "env \<Rightarrow> jsobj \<Rightarrow> string \<Rightarrow> error + regexp \<times> regexp" where
  "getAssetTypeCheckers env options optionPath =
     (case getHasExtensions env options ''jsExtensions'' optionPath of
        Inl e \<Rightarrow> Inl e
      | Inr hasJsExtensions \<Rightarrow>
          (case getHasExtensions env options ''cssExtensions'' optionPath of
             Inl e \<Rightarrow> Inl e
           | Inr hasCssExtensions \<Rightarrow> Inr (hasJsExtensions, hasCssExtensions)))"

definition isAssetType :: "env \<Rightarrow> regexp \<Rightarrow> jsval \<Rightarrow> bool" where
  "isAssetType env hasExtensions v = regexTest hasExtensions (to_str env v)"

text \<open>
  The \<open>forEach\<close> of \<open>splitLinkScriptTags\<close>, with the two arrays it pushes to as the
  accumulator.
\<close>

fun splitLoop ::
  "env \<Rightarrow> regexp \<times> regexp \<Rightarrow> string \<Rightarrow> string \<Rightarrow> jsobj list \<Rightarrow> jsobj list \<times> jsobj list
     \<Rightarrow> error + jsobj list \<times> jsobj list" where
  "splitLoop env checkers optionName optionPath [] acc = Inr acc"
| "splitLoop env checkers optionName optionPath (tagObject # rest) acc =
     (if isDefined (get tagObject ''type'') then
        (let type = get tagObject ''type''; others = AList.delete ''type'' tagObject in
         if \<not> isType type then
           Inl (AssertionError (optionPath @ ''.'' @ optionName @ '' type must be css or js ('' @
             to_str env type @ '')''))
         else if isTypeCss type then
           splitLoop env checkers optionName optionPath rest (fst acc @ [others], snd acc)
         else
           splitLoop env checkers optionName optionPath rest (fst acc, snd acc @ [others]))
      else
        (let path = get tagObject ''path'' in
         if isAssetType env (snd checkers) path then
           splitLoop env checkers optionName optionPath rest (fst acc @ [tagObject], snd acc)
         else if isAssetType env (fst checkers) path then
           splitLoop env checkers optionName optionPath rest (fst acc, snd acc @ [tagObject])
         else
           Inl (AssertionError (optionPath @ ''.'' @ optionName @
             '' could not determine asset type for ('' @ to_str env path @ '')''))))"

definition splitLinkScriptTags ::
  "env \<Rightarrow> jsobj list \<Rightarrow> jsobj \<Rightarrow> string \<Rightarrow> string \<Rightarrow> error + jsobj list \<times> jsobj list" where
  "splitLinkScriptTags env tagObjects options optionName optionPath =
     (case getAssetTypeCheckers env options optionPath of
        Inl e \<Rightarrow> Inl e
      | Inr checkers \<Rightarrow> splitLoop env checkers optionName optionPath tagObjects ([], []))"

section \<open>Option aggregator\<close>

text \<open>
  The \<open>forEach\<close> of \<open>getValidatedTagObjects\<close>: the descriptors of every item,
  concatenated; the first item that fails ends the loop.
\<close>

fun concatTagObjects :: "env \<Rightarrow> string \<Rightarrow> string \<Rightarrow> jsval list \<Rightarrow> jsobj list \<Rightarrow> error + jsobj list" where
  "concatTagObjects env optionName optionPath [] tagObjects = Inr tagObjects"
| "concatTagObjects env optionName optionPath (asset # assets) tagObjects =
     (case getTagObjects env asset optionName optionPath of
        Inl e \<Rightarrow> Inl e
      | Inr objs \<Rightarrow> concatTagObjects env optionName optionPath assets (tagObjects @ objs))"

text \<open>The result \<open>None\<close> is the source's \<open>undefined\<close>: the option is not defined.\<close>

definition getValidatedTagObjects ::
  "env \<Rightarrow> jsobj \<Rightarrow> string \<Rightarrow> string \<Rightarrow> error + jsobj list option" where
  "getValidatedTagObjects env options optionName optionPath =
     (let tags = get options optionName in
      if isDefined tags then
        if \<not> (isString tags \<or> isObject tags \<or> isArray tags) then
          Inl (AssertionError (optionPath @ ''.'' @ optionName @
            '' should be a string, object, or array ('' @ to_str env tags @ '')''))
        else
          (case (case tags of
                   Arr items \<Rightarrow> concatTagObjects env optionName optionPath items []
                 | _ \<Rightarrow> getTagObjects env tags optionName optionPath) of
             Inl e \<Rightarrow> Inl e
           | Inr tagObjects \<Rightarrow> Inr (Some tagObjects))
      else Inr None)"

definition getAllTagObjects ::
  "env \<Rightarrow> jsobj \<Rightarrow> jsval \<Rightarrow> string \<Rightarrow> string \<Rightarrow> error + jsobj list option" where
  "getAllTagObjects env options append' optionName optionPath =
     (case getValidatedTagObjects env options optionName optionPath of
        Inl e \<Rightarrow> Inl e
      | Inr None \<Rightarrow> Inr None
      | Inr (Some tagObjects) \<Rightarrow>
          Inr (Some (map (\<lambda>tag.
                 if \<not> isDefined (get tag ''append'') then AList.update ''append'' append' tag
                 else tag) tagObjects)))"

text \<open>
  \<open>validateTagObjectExternals\<close> returns the first assertion that fails, if any. Its
  argument is always an array of objects here, so the two shape tests of lines 201 and
  203 hold.
\<close>

definition checkExternal :: "bool \<Rightarrow> string \<Rightarrow> string \<Rightarrow> jsobj \<Rightarrow> error option" where
  "checkExternal isScript optionName optionPath tagObject =
     (let external = get tagObject ''external'' in
      if isDefined external then
        if isScript then
          (case external of
             Obj ext \<Rightarrow>
               (let packageName = get ext ''packageName''; variableName = get ext ''variableName'' in
                if \<not> (isString packageName \<or> isString variableName) then
                  Some (AssertionError (optionPath @ ''.'' @ optionName @
                    ''.external should have a string packageName and variableName property''))
                else if \<not> isString packageName then
                  Some (AssertionError (optionPath @ ''.'' @ optionName @
                    ''.external should have a string packageName property''))
                else if \<not> isString variableName then
                  Some (AssertionError (optionPath @ ''.'' @ optionName @
                    ''.external should have a string variableName property''))
                else None)
           | _ \<Rightarrow>
               Some (AssertionError (optionPath @ ''.'' @ optionName @ ''.external should be an object'')))
        else
          Some (AssertionError (optionPath @ ''.'' @ optionName @
            ''.external should not be used on non script tags''))
      else None)"

fun validateTagObjectExternals :: "jsobj list \<Rightarrow> bool \<Rightarrow> string \<Rightarrow> string \<Rightarrow> error option" where
  "validateTagObjectExternals [] isScript optionName optionPath = None"
| "validateTagObjectExternals (tagObject # tagObjects) isScript optionName optionPath =
     (case checkExternal isScript optionName optionPath tagObject of
        Some e \<Rightarrow> Some e
      | None \<Rightarrow> validateTagObjectExternals tagObjects isScript optionName optionPath)"

text \<open>
  \<open>processShortcuts\<close> returns the object \<open>processedOptions\<close>, which holds \<open>keyUse\<close> and
  \<open>keyAdd\<close> where the options set them. The closure of line 249 is the function value
  \<open>ShortcutFn add shortcut\<close>; \<open>add\<close> is a function of \<open>DEFAULT_OPTIONS\<close> at every call of the
  file, and a closure over an \<open>add\<close> that is no function is not modelled.
\<close>

definition processShortcuts ::
  "env \<Rightarrow> jsobj \<Rightarrow> string \<Rightarrow> string \<Rightarrow> string \<Rightarrow> string \<Rightarrow> jsval \<Rightarrow> error + jsobj" where
  "processShortcuts env options optionPath keyShortcut keyUse keyAdd add =
     (if isDefined (get options keyUse) \<or> isDefined (get options keyAdd) then
        if isDefined (get options keyShortcut) then
          Inl (AssertionError (optionPath @ ''.'' @ keyShortcut @ '' should not be used with either '' @
            keyUse @ '' or '' @ keyAdd))
        else if isDefined (get options keyUse) \<and> \<not> isBoolean (get options keyUse) then
          Inl (AssertionError (optionPath @ ''.'' @ keyUse @ '' should be a boolean''))
        else
          (let processedOptions =
                 (if isDefined (get options keyUse) then [(keyUse, get options keyUse)] else [])
           in if isDefined (get options keyAdd) then
                (case isFunctionReturningString env (get options keyAdd) of
                   Inl e \<Rightarrow> Inl e
                 | Inr False \<Rightarrow>
                     Inl (AssertionError (optionPath @ ''.'' @ keyAdd @
                       '' should be a function that returns a string''))
                 | Inr True \<Rightarrow> Inr (AList.update keyAdd (get options keyAdd) processedOptions))
              else Inr processedOptions)
      else if isDefined (get options keyShortcut) then
        (let shortcut = get options keyShortcut in
         case (if isBoolean shortcut \<or> isString shortcut then Inr True
               else isFunctionReturningString env shortcut) of
           Inl e \<Rightarrow> Inl e
         | Inr False \<Rightarrow>
             Inl (AssertionError (optionPath @ ''.'' @ keyShortcut @
               '' should be a boolean or a string or a function that returns a string''))
         | Inr True \<Rightarrow>
             (case shortcut of
                Bool b \<Rightarrow> Inr (AList.update keyUse shortcut [])
              | Str s \<Rightarrow>
                  (case add of
                     Fun addFn \<Rightarrow>
                       Inr (AList.update keyAdd (Fun (ShortcutFn addFn s))
                             (AList.update keyUse (Bool True) []))
                   | _ \<Rightarrow> Inl Unmodelled)
              | _ \<Rightarrow> Inr (AList.update keyAdd shortcut (AList.update keyUse (Bool True) []))))
      else Inr [])"

definition getValidatedMainOptions :: "env \<Rightarrow> jsval \<Rightarrow> string \<Rightarrow> jsobj \<Rightarrow> error + jsobj" where
  "getValidatedMainOptions env options optionPath defaultOptions =
     (case options of
        Obj opts \<Rightarrow>
          if isDefined (get opts ''append'') \<and> \<not> isBoolean (get opts ''append'') then
            Inl (AssertionError (optionPath @ ''.append should be a boolean''))
          else
            (let append' = (if isDefined (get opts ''append'') then get opts ''append''
                             else get defaultOptions ''append'') in
             case processShortcuts env opts optionPath ''publicPath'' ''usePublicPath'' ''addPublicPath''
                    (get defaultOptions ''addPublicPath'') of
               Inl e \<Rightarrow> Inl e
             | Inr publicPathOptions \<Rightarrow>
                 (let usePublicPath_v =
                        (if isDefined (get publicPathOptions ''usePublicPath'')
                         then get publicPathOptions ''usePublicPath''
                         else get defaultOptions ''usePublicPath'');
                      addPublicPath_v =
                        (if isDefined (get publicPathOptions ''addPublicPath'')
                         then get publicPathOptions ''addPublicPath''
                         else get defaultOptions ''addPublicPath'')
                  in case processShortcuts env opts optionPath ''hash'' ''useHash'' ''addHash''
                            (get defaultOptions ''addHash'') of
                       Inl e \<Rightarrow> Inl e
                     | Inr hashOptions \<Rightarrow>
                         (let useHash_v =
                                (if isDefined (get hashOptions ''useHash'') then get hashOptions ''useHash''
                                 else get defaultOptions ''useHash'');
                              addHash_v =
                                (if isDefined (get hashOptions ''addHash'') then get hashOptions ''addHash''
                                 else get defaultOptions ''addHash'')
                          in Inr (AList.update ''addHash'' addHash_v
                                   (AList.update ''useHash'' useHash_v
                                     (AList.update ''addPublicPath'' addPublicPath_v
                                       (AList.update ''usePublicPath'' usePublicPath_v
                                         (AList.update ''append'' append' defaultOptions))))))))
      | _ \<Rightarrow> Inl (AssertionError (optionPath @ '' should be an object'')))"

text \<open>
  \<open>getValidatedOptions\<close>, called with two arguments as everywhere in the file, so that
  \<open>defaultOptions\<close> is \<open>DEFAULT_OPTIONS\<close> and \<open>links\<close> and \<open>scripts\<close> start empty. The field
  \<open>append_v\<close> is the source's \<open>append\<close>.
\<close>

record validated_options =
  links :: "jsobj list"
  linksPrepend :: "jsobj list"
  linksAppend :: "jsobj list"
  scripts :: "jsobj list"
  scriptsPrepend :: "jsobj list"
  scriptsAppend :: "jsobj list"
  append_v :: jsval
  usePublicPath :: jsval
  addPublicPath :: jsval
  useHash :: jsval
  addHash :: jsval
  files :: "string list option"

text \<open>
  The three blocks of lines 296 to 313; each returns the lists it adds. \<open>getAllTagObjects\<close>
  gives a list whenever the option is defined, so the branch for \<open>None\<close> is never taken.
\<close>

definition tagsBlock :: "env \<Rightarrow> jsobj \<Rightarrow> jsval \<Rightarrow> string \<Rightarrow> error + jsobj list \<times> jsobj list" where
  "tagsBlock env options append' optionPath =
     (if isDefined (get options ''tags'') then
        (case getAllTagObjects env options append' ''tags'' optionPath of
           Inl e \<Rightarrow> Inl e
         | Inr None \<Rightarrow> Inl TypeError
         | Inr (Some tagObjects) \<Rightarrow>
             (case splitLinkScriptTags env tagObjects options ''tags'' optionPath of
                Inl e \<Rightarrow> Inl e
              | Inr (linkObjects, scriptObjects) \<Rightarrow>
                  (case validateTagObjectExternals linkObjects False ''tags'' optionPath of
                     Some e \<Rightarrow> Inl e
                   | None \<Rightarrow>
                       (case validateTagObjectExternals scriptObjects True ''tags'' optionPath of
                          Some e \<Rightarrow> Inl e
                        | None \<Rightarrow> Inr (linkObjects, scriptObjects)))))
      else Inr ([], []))"

definition surfaceBlock :: "env \<Rightarrow> jsobj \<Rightarrow> jsval \<Rightarrow> string \<Rightarrow> bool \<Rightarrow> string \<Rightarrow> error + jsobj list" where
  "surfaceBlock env options append' optionName isScript optionPath =
     (if isDefined (get options optionName) then
        (case getAllTagObjects env options append' optionName optionPath of
           Inl e \<Rightarrow> Inl e
         | Inr None \<Rightarrow> Inl TypeError
         | Inr (Some tagObjects) \<Rightarrow>
             (case validateTagObjectExternals tagObjects isScript optionName optionPath of
                Some e \<Rightarrow> Inl e
              | None \<Rightarrow> Inr tagObjects))
      else Inr [])"

definition getValidatedOptions :: "env \<Rightarrow> jsval \<Rightarrow> string \<Rightarrow> error + validated_options" where
  "getValidatedOptions env options optionPath =
     (case options of
        Obj opts \<Rightarrow>
          (case getValidatedMainOptions env options optionPath DEFAULT_OPTIONS of
             Inl e \<Rightarrow> Inl e
           | Inr main \<Rightarrow>
               (case tagsBlock env opts (get main ''append'') optionPath of
                  Inl e \<Rightarrow> Inl e
                | Inr (tagLinks, tagScripts) \<Rightarrow>
                    (case surfaceBlock env opts (get main ''append'') ''links'' False optionPath of
                       Inl e \<Rightarrow> Inl e
                     | Inr linkObjects \<Rightarrow>
                         (case surfaceBlock env opts (get main ''append'') ''scripts'' True optionPath of
                            Inl e \<Rightarrow> Inl e
                          | Inr scriptObjects \<Rightarrow>
                              (let links_all = [] @ tagLinks @ linkObjects;
                                   scripts_all = [] @ tagScripts @ scriptObjects
                               in Inr \<lparr> links = links_all,
                                        linksPrepend = filter (\<lambda>t. \<not> truthy (get t ''append'')) links_all,
                                        linksAppend = filter (\<lambda>t. truthy (get t ''append'')) links_all,
                                        scripts = scripts_all,
                                        scriptsPrepend = filter (\<lambda>t. \<not> truthy (get t ''append'')) scripts_all,
                                        scriptsAppend = filter (\<lambda>t. truthy (get t ''append'')) scripts_all,
                                        append_v = get main ''append'',
                                        usePublicPath = get main ''usePublicPath'',
                                        addPublicPath = get main ''addPublicPath'',
                                        useHash = get main ''useHash'',
                                        addHash = get main ''addHash'',
                                        files = None \<rparr>)))))
      | _ \<Rightarrow> Inl (AssertionError (optionPath @ '' should be an object'')))"

section \<open>Path resolver\<close>

definition getTagPath :: "env \<Rightarrow> jsobj \<Rightarrow> validated_options \<Rightarrow> jsval \<Rightarrow> jsval \<Rightarrow> error + string" where
  "getTagPath env tagObject options webpackPublicPath compilationHash =
     (let publicPath = get tagObject ''publicPath'';
          hash = get tagObject ''hash'';
          path = get tagObject ''path''
      in case (if isDefined publicPath then
                 (case publicPath of
                    Bool True \<Rightarrow> call env (addPublicPath options) path webpackPublicPath
                  | Fun f \<Rightarrow> call env publicPath path webpackPublicPath
                  | _ \<Rightarrow> Inr path)
               else if truthy (usePublicPath options) then
                 call env (addPublicPath options) path webpackPublicPath
               else Inr path) of
           Inl e \<Rightarrow> Inl e
         | Inr path \<Rightarrow>
             (case (if isDefined hash then
                      (case hash of
                         Bool True \<Rightarrow> call env (addHash options) path compilationHash
                       | Fun f \<Rightarrow> call env hash path compilationHash
                       | _ \<Rightarrow> Inr path)
                    else if truthy (useHash options) then
                      call env (addHash options) path compilationHash
                    else Inr path) of
                Inl e \<Rightarrow> Inl e
              | Inr path \<Rightarrow> js_slash env path))"

text \<open>
  \<open>getTagPath\<close> together with the descriptor it was called on. JavaScript hands
  \<open>tagObject\<close> over by reference, so a call could change the descriptor that the plugin
  keeps in its options and resolves again for the next document. \<open>getTagPathOn\<close> gives
  the descriptor as the call leaves it, and what the call returns or throws. Lines 336
  and 337 read the descriptor; every assignment of lines 341 to 355 is to the local
  variable \<open>path\<close>; the transforms are called with \<open>path\<close> and the runtime value, not with
  the descriptor.
\<close>

definition getTagPathOn ::
  "env \<Rightarrow> jsobj \<Rightarrow> validated_options \<Rightarrow> jsval \<Rightarrow> jsval \<Rightarrow> jsobj \<times> (error + string)" where
  "getTagPathOn env tagObject options webpackPublicPath compilationHash =
     (let publicPath = get tagObject ''publicPath'';
          hash = get tagObject ''hash'';
          path = get tagObject ''path''
      in case (if isDefined publicPath then
                 (case publicPath of
                    Bool True \<Rightarrow> call env (addPublicPath options) path webpackPublicPath
                  | Fun f \<Rightarrow> call env publicPath path webpackPublicPath
                  | _ \<Rightarrow> Inr path)
               else if truthy (usePublicPath options) then
                 call env (addPublicPath options) path webpackPublicPath
               else Inr path) of
           Inl e \<Rightarrow> (tagObject, Inl e)
         | Inr path \<Rightarrow>
             (case (if isDefined hash then
                      (case hash of
                         Bool True \<Rightarrow> call env (addHash options) path compilationHash
                       | Fun f \<Rightarrow> call env hash path compilationHash
                       | _ \<Rightarrow> Inr path)
                    else if truthy (useHash options) then
                      call env (addHash options) path compilationHash
                    else Inr path) of
                Inl e \<Rightarrow> (tagObject, Inl e)
              | Inr path \<Rightarrow> (tagObject, js_slash env path)))"

section \<open>Injection coordinator\<close>

definition getAllValidatedOptions :: "env \<Rightarrow> jsval \<Rightarrow> string \<Rightarrow> error + validated_options" where
  "getAllValidatedOptions env options optionPath =
     (case getValidatedOptions env options optionPath of
        Inl e \<Rightarrow> Inl e
      | Inr validatedOptions \<Rightarrow>
          (case options of
             Obj opts \<Rightarrow>
               (case get opts ''files'' of
                  Undefined \<Rightarrow> Inr validatedOptions
                | Str file \<Rightarrow> Inr (validatedOptions\<lparr>files := Some [file]\<rparr>)
                | Arr fs \<Rightarrow>
                    if list_all isString fs
                    then Inr (validatedOptions\<lparr>files := Some (map (to_str env) fs)\<rparr>)
                    else Inl (AssertionError (optionPath @ ''.files should be a string or array of strings''))
                | _ \<Rightarrow> Inl (AssertionError (optionPath @ ''.files should be a string or array of strings'')))
           | _ \<Rightarrow> Inl TypeError))"

definition PLUGIN_NAME :: string where
  "PLUGIN_NAME = ''HtmlWebpackTagsPlugin''"

text \<open>The constructor: the options the plugin keeps in \<open>this.options\<close>.\<close>

definition HtmlWebpackTagsPlugin :: "env \<Rightarrow> jsval \<Rightarrow> error + validated_options" where
  "HtmlWebpackTagsPlugin env options = getAllValidatedOptions env options (PLUGIN_NAME @ ''.options'')"

text \<open>
  What the host hands to the two hooks: the document in progress, with its output name,
  its asset lists and, once rendered, its tag nodes (\<open>head\<close> and \<open>body\<close>, or \<open>headTags\<close>
  and \<open>bodyTags\<close>; \<open>None\<close> is a field that is not there).
\<close>

record html_assets =
  publicPath :: jsval
  js :: "string list"
  css :: "string list"

record html_tag =
  tagName :: string
  attributes :: jsobj

record html_plugin_data =
  outputName :: string
  assets :: html_assets
  head :: "html_tag list option"
  headTags :: "html_tag list option"
  body :: "html_tag list option"
  bodyTags :: "html_tag list option"

definition getShouldSkip :: "env \<Rightarrow> string list option \<Rightarrow> html_plugin_data \<Rightarrow> bool" where
  "getShouldSkip env fs =
     (case fs of
        None \<Rightarrow> (\<lambda>htmlPluginData. False)
      | Some patterns \<Rightarrow>
          (\<lambda>htmlPluginData. \<not> list_ex (\<lambda>file. minimatch env (outputName htmlPluginData) file) patterns))"

text \<open>
  Lines 396 to 403 of \<open>apply\<close>: the host's externals registry (an object, or \<open>None\<close> when
  the host has none) after the loop over \<open>scripts\<close>. An assignment to a key that is there
  replaces its value in place; a new key goes to the end.
\<close>

definition addExternal :: "env \<Rightarrow> jsobj \<Rightarrow> jsobj \<Rightarrow> jsobj" where
  "addExternal env script externals =
     (case get script ''external'' of
        Obj external \<Rightarrow>
          AList.update (to_str env (get external ''packageName'')) (get external ''variableName'') externals
      | _ \<Rightarrow> externals)"

definition applyExternals :: "env \<Rightarrow> validated_options \<Rightarrow> jsobj option \<Rightarrow> jsobj" where
  "applyExternals env options compilerExternals =
     fold (addExternal env) (scripts options) (case compilerExternals of None \<Rightarrow> [] | Some e \<Rightarrow> e)"

text \<open>
  How a hook ends: it calls the callback with \<open>(err, data)\<close>, returns a promise, returns
  nothing (the promise of line 445 is not returned), or throws.
\<close>

datatype completion =
    CallbackCalled "error option" "html_plugin_data option"
  | PromiseResolved html_plugin_data
  | NothingReturned
  | Thrown error

text \<open>
  The outcome of a hook: the document as the hook leaves it, the source files it handed
  to \<open>addFileToAssets\<close>, in order, and how it ended.
\<close>

record hook_outcome =
  document :: html_plugin_data
  registered :: "string list"
  ending :: completion

text \<open>
  \<open>getPath\<close> mapped over a bucket: the files registered so far and the paths so far are
  the accumulator; a \<open>getTagPath\<close> that throws ends the loop with the files registered up
  to there.
\<close>

fun mapGetPath ::
  "env \<Rightarrow> validated_options \<Rightarrow> jsval \<Rightarrow> jsval \<Rightarrow> jsobj list \<Rightarrow> string list \<Rightarrow> string list
     \<Rightarrow> string list \<times> (error + string list)" where
  "mapGetPath env options pluginPublicPath compilationHash [] sources paths = (sources, Inr paths)"
| "mapGetPath env options pluginPublicPath compilationHash (tag # tags) sources paths =
     (let sources' = (case get tag ''sourcePath'' of Str sourcePath \<Rightarrow> sources @ [sourcePath] | _ \<Rightarrow> sources)
      in case getTagPath env tag options pluginPublicPath compilationHash of
           Inl e \<Rightarrow> (sources', Inl e)
         | Inr path \<Rightarrow> mapGetPath env options pluginPublicPath compilationHash tags sources' (paths @ [path]))"

text \<open>
  \<open>Promise.all\<close> over the registrations: the first registration that fails, in
  registration order, is the failure reported.
\<close>

definition promiseAll :: "env \<Rightarrow> string list \<Rightarrow> error option" where
  "promiseAll env sources =
     (case List.map_filter (addFileToAssets env) sources of [] \<Rightarrow> None | e # _ \<Rightarrow> Some e)"

definition onBeforeHtmlGeneration ::
  "env \<Rightarrow> validated_options \<Rightarrow> jsval \<Rightarrow> html_plugin_data \<Rightarrow> bool \<Rightarrow> hook_outcome" where
  "onBeforeHtmlGeneration env options compilationHash htmlPluginData callback =
     (if getShouldSkip env (files options) htmlPluginData then
        \<lparr> document = htmlPluginData, registered = [],
          ending = (if callback then CallbackCalled None (Some htmlPluginData)
                    else PromiseResolved htmlPluginData) \<rparr>
      else
        (let pluginPublicPath = publicPath (assets htmlPluginData);
             getPaths = mapGetPath env options pluginPublicPath compilationHash
         in case getPaths (scriptsPrepend options) [] [] of
              (s1, Inl e) \<Rightarrow> \<lparr> document = htmlPluginData, registered = s1, ending = Thrown e \<rparr>
            | (s1, Inr jsPrependPaths) \<Rightarrow>
         (case getPaths (scriptsAppend options) s1 [] of
              (s2, Inl e) \<Rightarrow> \<lparr> document = htmlPluginData, registered = s2, ending = Thrown e \<rparr>
            | (s2, Inr jsAppendPaths) \<Rightarrow>
         (case getPaths (linksPrepend options) s2 [] of
              (s3, Inl e) \<Rightarrow> \<lparr> document = htmlPluginData, registered = s3, ending = Thrown e \<rparr>
            | (s3, Inr cssPrependPaths) \<Rightarrow>
         (case getPaths (linksAppend options) s3 [] of
              (s4, Inl e) \<Rightarrow> \<lparr> document = htmlPluginData, registered = s4, ending = Thrown e \<rparr>
            | (s4, Inr cssAppendPaths) \<Rightarrow>
                (let document' = htmlPluginData
                       \<lparr> assets := (assets htmlPluginData)
                            \<lparr> js := jsPrependPaths @ js (assets htmlPluginData) @ jsAppendPaths,
                              css := cssPrependPaths @ css (assets htmlPluginData) @ cssAppendPaths \<rparr> \<rparr>
                 in \<lparr> document = document', registered = s4,
                      ending =
                        (case promiseAll env s4 of
                           None \<Rightarrow> if callback then CallbackCalled None (Some document') else NothingReturned
                         | Some err \<Rightarrow> if callback then CallbackCalled (Some err) None else NothingReturned) \<rparr>))))))"

text \<open>
  \<open>onAlterAssetTag\<close>. The rendered tags are shared objects that the hook changes in
  place, so a tag is named by its index in the array it came from (\<open>head\<close> or \<open>body\<close>);
  \<open>filter\<close>, \<open>slice\<close> and \<open>concat\<close> work on the indices, and \<open>copyAttributes\<close> writes
  through them. \<open>sliceFrom\<close> is \<open>Array.prototype.slice\<close> with one argument, which counts
  a negative start from the end.
\<close>

definition tagIndices :: "string \<Rightarrow> html_tag list \<Rightarrow> nat list" where
  "tagIndices name nodes = filter (\<lambda>i. tagName (nodes ! i) = name) [0 ..< length nodes]"

definition sliceFrom :: "int \<Rightarrow> 'a list \<Rightarrow> 'a list" where
  "sliceFrom start xs =
     (let n = int (length xs);
          k = (if start < 0 then max (n + start) 0 else min start n)
      in drop (nat k) xs)"

definition assignAttributes :: "jsobj \<Rightarrow> jsobj \<Rightarrow> jsobj" where
  "assignAttributes attrs tagAttributes =
     fold (\<lambda>attribute acc. AList.update attribute (get attrs attribute) acc) (map fst attrs) tagAttributes"

fun copyAttributes :: "nat list \<Rightarrow> jsobj list \<Rightarrow> html_tag list \<Rightarrow> error + html_tag list" where
  "copyAttributes [] tagObjects nodes = Inr nodes"
| "copyAttributes (i # tags) [] nodes = Inl TypeError"
| "copyAttributes (i # tags) (tagObject # tagObjects) nodes =
     (case get tagObject ''attributes'' of
        Obj attrs \<Rightarrow>
          copyAttributes tags tagObjects
            (nodes[i := (nodes ! i)\<lparr>attributes := assignAttributes attrs (attributes (nodes ! i))\<rparr>])
      | v \<Rightarrow> if truthy v then Inl Unmodelled else copyAttributes tags tagObjects nodes)"

definition copyBucketAttributes ::
  "string \<Rightarrow> jsobj list \<Rightarrow> jsobj list \<Rightarrow> html_tag list \<Rightarrow> error + html_tag list" where
  "copyBucketAttributes name prepend append' nodes =
     (let pluginTags = tagIndices name nodes;
          tagsPrepend = take (length prepend) pluginTags;
          tagsAppend = sliceFrom (int (length pluginTags) - int (length append')) pluginTags
      in copyAttributes (tagsPrepend @ tagsAppend) (prepend @ append') nodes)"

definition onAlterAssetTag ::
  "env \<Rightarrow> validated_options \<Rightarrow> html_plugin_data \<Rightarrow> bool \<Rightarrow> hook_outcome" where
  "onAlterAssetTag env options htmlPluginData callback =
     (if getShouldSkip env (files options) htmlPluginData then
        \<lparr> document = htmlPluginData, registered = [],
          ending = (if callback then CallbackCalled None (Some htmlPluginData)
                    else PromiseResolved htmlPluginData) \<rparr>
      else
        (case (case head htmlPluginData of Some h \<Rightarrow> Some h | None \<Rightarrow> headTags htmlPluginData) of
           None \<Rightarrow> \<lparr> document = htmlPluginData, registered = [], ending = Thrown TypeError \<rparr>
         | Some pluginHead \<Rightarrow>
        (case (case body htmlPluginData of Some b \<Rightarrow> Some b | None \<Rightarrow> bodyTags htmlPluginData) of
           None \<Rightarrow> \<lparr> document = htmlPluginData, registered = [], ending = Thrown TypeError \<rparr>
         | Some pluginBody \<Rightarrow>
        (case copyBucketAttributes ''link'' (linksPrepend options) (linksAppend options) pluginHead of
           Inl e \<Rightarrow> \<lparr> document = htmlPluginData, registered = [], ending = Thrown e \<rparr>
         | Inr pluginHead' \<Rightarrow>
             (let afterHead =
                    (case head htmlPluginData of
                       Some h \<Rightarrow> htmlPluginData\<lparr>head := Some pluginHead'\<rparr>
                     | None \<Rightarrow> htmlPluginData\<lparr>headTags := Some pluginHead'\<rparr>)
              in case copyBucketAttributes ''script'' (scriptsPrepend options) (scriptsAppend options)
                        pluginBody of
                   Inl e \<Rightarrow> \<lparr> document = afterHead, registered = [], ending = Thrown e \<rparr>
                 | Inr pluginBody' \<Rightarrow>
                     (let document' =
                            (case body htmlPluginData of
                               Some b \<Rightarrow> afterHead\<lparr>body := Some pluginBody'\<rparr>
                             | None \<Rightarrow> afterHead\<lparr>bodyTags := Some pluginBody'\<rparr>)
                      in \<lparr> document = document', registered = [],
                           ending = (if callback then CallbackCalled None (Some document')
                                     else PromiseResolved document') \<rparr>))))))"

section \<open>The path resolver as the specification describes it\<close>

text \<open>
  Section 4.4 of the specification describes the resolver as two steps and a
  normalization. \<open>spec_publicPathStep\<close> and \<open>spec_hashStep\<close> follow its words: the
  descriptor's own field decides when it is defined (\<open>true\<close> applies the options'
  transform, a function is called, anything else leaves the path as it is), and the
  options' flag decides otherwise. They are compared with \<open>getTagPath\<close> below.
\<close>

definition spec_publicPathStep :: "env \<Rightarrow> jsobj \<Rightarrow> validated_options \<Rightarrow> jsval \<Rightarrow> jsval \<Rightarrow> error + jsval" where
  "spec_publicPathStep env descriptor options runtimePublicPath path =
     (case get descriptor ''publicPath'' of
        Undefined \<Rightarrow>
          if truthy (usePublicPath options) then call env (addPublicPath options) path runtimePublicPath
          else Inr path
      | Bool True \<Rightarrow> call env (addPublicPath options) path runtimePublicPath
      | Fun f \<Rightarrow> call env (Fun f) path runtimePublicPath
      | _ \<Rightarrow> Inr path)"

definition spec_hashStep :: "env \<Rightarrow> jsobj \<Rightarrow> validated_options \<Rightarrow> jsval \<Rightarrow> jsval \<Rightarrow> error + jsval" where
  "spec_hashStep env descriptor options runtimeHash path =
     (case get descriptor ''hash'' of
        Undefined \<Rightarrow>
          if truthy (useHash options) then call env (addHash options) path runtimeHash
          else Inr path
      | Bool True \<Rightarrow> call env (addHash options) path runtimeHash
      | Fun f \<Rightarrow> call env (Fun f) path runtimeHash
      | _ \<Rightarrow> Inr path)"

text \<open>
  A script declares the module name \<open>k\<close> when the loop of \<open>apply\<close> assigns to the key
  \<open>k\<close> for it.
\<close>

definition declaresExternal :: "env \<Rightarrow> jsobj \<Rightarrow> string \<Rightarrow> bool" where
  "declaresExternal env script k =
     (case get script ''external'' of
        Obj external \<Rightarrow> to_str env (get external ''packageName'') = k
      | _ \<Rightarrow> False)"

text \<open>
  A descriptor has a valid external when its \<open>external\<close> is an object with a string
  \<open>packageName\<close> and a string \<open>variableName\<close>.
\<close>

definition hasValidExternal :: "jsobj \<Rightarrow> bool" where
  "hasValidExternal t =
     (case get t ''external'' of
        Obj external \<Rightarrow> isString (get external ''packageName'') \<and> isString (get external ''variableName'')
      | _ \<Rightarrow> False)"

section \<open>Example inputs\<close>

text \<open>
  A concrete environment for the examples: \<open>path.join\<close> on two plain relative segments,
  \<open>slash\<close> turning each backslash into a forward slash, a file system in which the
  directory \<open>/libs\<close> holds \<open>a.js\<close> and \<open>b.js\<close>, \<open>minimatch\<close> on patterns without
  wildcards, and two user functions, \<open>(p, b) => b + p\<close> and \<open>(p, h) => p + '?' + h\<close>, on
  string arguments. The examples coerce no value other than a string.
\<close>

definition example_to_string :: "jsval \<Rightarrow> string" where
  "example_to_string v =
     (case v of
        Undefined \<Rightarrow> ''undefined''
      | Null \<Rightarrow> ''null''
      | Bool b \<Rightarrow> (if b then ''true'' else ''false'')
      | Str s \<Rightarrow> s
      | _ \<Rightarrow> ''[object Object]'')"

definition example_env :: env where
  "example_env =
     \<lparr> path_join = (\<lambda>a b. a @ ''/'' @ b),
       slash = map (\<lambda>c. if c = CHR 0x5C then CHR ''/'' else c),
       glob_sync = (\<lambda>pattern cwd.
         if pattern = ''*.js'' \<and> cwd = ''/libs'' then [''a.js'', ''b.js''] else []),
       minimatch = (\<lambda>name pattern. name = pattern),
       to_string = example_to_string,
       user_fn = (\<lambda>n a b.
         if n = 0 then Str (example_to_string b @ example_to_string a)
         else Str (example_to_string a @ ''?'' @ example_to_string b)),
       addFileToAssets = (\<lambda>_. None) \<rparr>"

definition vendor_tag :: jsobj where
  "vendor_tag =
     [(''path'', Str ''vendor''), (''glob'', Str ''*.js''), (''globPath'', Str ''/libs''),
      (''append'', Bool False)]"


definition example_validated :: validated_options where
  "example_validated =
     \<lparr> links = [[(''path'', Str ''b.css''), (''append'', Bool False)],
                [(''path'', Str ''d''), (''append'', Bool True)],
                [(''path'', Str ''z.css''), (''append'', Bool True)],
                [(''path'', Str ''y.css''), (''append'', Bool False)]],
       linksPrepend = [[(''path'', Str ''b.css''), (''append'', Bool False)],
                       [(''path'', Str ''y.css''), (''append'', Bool False)]],
       linksAppend = [[(''path'', Str ''d''), (''append'', Bool True)],
                      [(''path'', Str ''z.css''), (''append'', Bool True)]],
       scripts = [[(''path'', Str ''a.js''), (''append'', Bool True)],
                  [(''path'', Str ''c.js''), (''append'', Bool False)],
                  [(''path'', Str ''s.js''), (''append'', Bool True)]],
       scriptsPrepend = [[(''path'', Str ''c.js''), (''append'', Bool False)]],
       scriptsAppend = [[(''path'', Str ''a.js''), (''append'', Bool True)],
                        [(''path'', Str ''s.js''), (''append'', Bool True)]],
       append_v = Bool True,
       usePublicPath = Bool True,
       addPublicPath = Fun DefaultAddPublicPath,
       useHash = Bool False,
       addHash = Fun DefaultAddHash,
       files = None \<rparr>"

text \<open>
  Resolved options with the two user functions of the environment as transforms, and a
  descriptor with \<open>publicPath: true\<close> and \<open>hash: true\<close>.
\<close>

definition cdn_options :: validated_options where
  "cdn_options = example_validated\<lparr> addPublicPath := Fun (UserFn 0), addHash := Fun (UserFn 1) \<rparr>"

definition cdn_tag :: jsobj where
  "cdn_tag = [(''path'', Str ''a.js''), (''publicPath'', Bool True), (''hash'', Bool True)]"

text \<open>
  Options with an \<open>external\<close> on an entry of \<open>links\<close>, and with two entries of \<open>scripts\<close>
  that declare the same package; a host registry; a plugin restricted to \<open>index.html\<close>
  and two documents.
\<close>

definition external_in_links :: jsobj where
  "external_in_links =
     [(''links'', Arr [Obj [(''path'', Str ''a.css''),
                            (''external'', Obj [(''packageName'', Str ''jquery''),
                                                (''variableName'', Str ''jQuery'')])]])]"

definition external_in_scripts :: jsobj where
  "external_in_scripts =
     [(''scripts'', Arr [Obj [(''path'', Str ''jquery.slim.js''),
                              (''external'', Obj [(''packageName'', Str ''jquery''),
                                                  (''variableName'', Str ''$'')])],
                         Obj [(''path'', Str ''jquery.js''),
                              (''external'', Obj [(''packageName'', Str ''jquery''),
                                                  (''variableName'', Str ''jQuery'')])],
                         Str ''app.js''])]"

definition external_scripts_validated :: validated_options where
  "external_scripts_validated =
     \<lparr> links = [], linksPrepend = [], linksAppend = [],
       scripts =
         [[(''path'', Str ''jquery.slim.js''),
           (''external'', Obj [(''packageName'', Str ''jquery''), (''variableName'', Str ''$'')]),
           (''append'', Bool True)],
          [(''path'', Str ''jquery.js''),
           (''external'', Obj [(''packageName'', Str ''jquery''), (''variableName'', Str ''jQuery'')]),
           (''append'', Bool True)],
          [(''path'', Str ''app.js''), (''append'', Bool True)]],
       scriptsPrepend = [],
       scriptsAppend =
         [[(''path'', Str ''jquery.slim.js''),
           (''external'', Obj [(''packageName'', Str ''jquery''), (''variableName'', Str ''$'')]),
           (''append'', Bool True)],
          [(''path'', Str ''jquery.js''),
           (''external'', Obj [(''packageName'', Str ''jquery''), (''variableName'', Str ''jQuery'')]),
           (''append'', Bool True)],
          [(''path'', Str ''app.js''), (''append'', Bool True)]],
       append_v = Bool True,
       usePublicPath = Bool True,
       addPublicPath = Fun DefaultAddPublicPath,
       useHash = Bool False,
       addHash = Fun DefaultAddHash,
       files = None \<rparr>"

definition host_externals :: jsobj where
  "host_externals = [(''react'', Str ''React''), (''jquery'', Str ''jq'')]"

definition index_only_options :: validated_options where
  "index_only_options = cdn_options\<lparr> files := Some [''index.html''] \<rparr>"

definition other_document :: html_plugin_data where
  "other_document =
     \<lparr> outputName = ''other.html'',
       assets = \<lparr> publicPath = Str ''/cdn/'', js = [''main.js''], css = [''main.css''] \<rparr>,
       head = Some [\<lparr> tagName = ''link'', attributes = [(''href'', Str ''main.css'')] \<rparr>],
       headTags = None,
       body = Some [\<lparr> tagName = ''script'', attributes = [(''src'', Str ''main.js'')] \<rparr>],
       bodyTags = None \<rparr>"

definition index_document :: html_plugin_data where
  "index_document = other_document\<lparr> outputName := ''index.html'' \<rparr>"

section \<open>Properties of the tag descriptor normalizer\<close>

lemma get_update: "get (AList.update k v obj) k' = (if k' = k then v else get obj k')"
  by (simp add: get_def AList.update_conv')

lemma get_delete: "get (AList.delete k obj) k' = (if k' = k then Undefined else get obj k')"
  by (simp add: get_def AList.delete_conv')

lemma checkTagFields_path:
  "checkTagFields env t optionName optionPath = None \<Longrightarrow> isString (get t ''path'')"
  by (auto simp: checkTagFields_def split: if_splits)

text \<open>
  Claim C2, as amended. An object tag must carry a string \<open>path\<close>, also when it carries a
  \<open>glob\<close> and a \<open>globPath\<close>: the path check of line 123 comes first and is unconditional,
  so every object without a string \<open>path\<close> fails with the assertion of that line.
\<close>

theorem getTagObjects_requires_path:
  "\<not> isString (get t ''path'') \<Longrightarrow>
   getTagObjects env (Obj t) optionName optionPath =
     Inl (AssertionError (optionPath @ ''.'' @ optionName @ '' object must have a string path property''))"
  by (simp add: getTagObjects_def checkTagFields_def)

theorem getTagObjects_requires_path_witness:
  "\<not> isString (get [(''append'', Bool True)] ''path'') \<and>
   getTagObjects example_env (Obj [(''append'', Bool True)]) ''links'' ''o'' =
     Inl (AssertionError ''o.links object must have a string path property'')"
proof -
  have h: "\<not> isString (get [(''append'', Bool True)] ''path'')"
    by (simp add: get_def isString_def)
  show ?thesis
    using h getTagObjects_requires_path [OF h, of example_env "''links''" "''o''"] by simp
qed

text \<open>
  The claim as it was stated fails: an object with a string \<open>glob\<close> and a string
  \<open>globPath\<close> and no \<open>path\<close> is rejected.
\<close>

theorem glob_pair_without_path_counterexample:
  "getTagObjects example_env (Obj [(''glob'', Str ''*.js''), (''globPath'', Str ''/libs'')])
     ''tags'' ''HtmlWebpackTagsPlugin.options'' =
   Inl (AssertionError ''HtmlWebpackTagsPlugin.options.tags object must have a string path property'')"
  by (simp add: getTagObjects_def checkTagFields_def get_def isString_def)

text \<open>
  Claim C5. A tag whose field checks pass and whose \<open>glob\<close> and \<open>globPath\<close> are strings
  is expanded by \<open>glob.sync(glob, {cwd: globPath})\<close>. With no match the result is the
  assertion of line 152; otherwise there is one descriptor per match, in match order,
  with \<open>path\<close> set to \<open>slash(path.join(path, match))\<close>, without \<open>glob\<close> and \<open>globPath\<close>, and
  with every other property of the tag as declared.
\<close>

theorem getTagObjects_glob:
  assumes chk: "checkTagFields env t optionName optionPath = None"
    and p: "get t ''path'' = Str base"
    and g: "get t ''glob'' = Str assetGlob"
    and gp: "get t ''globPath'' = Str globPath"
  shows "getTagObjects env (Obj t) optionName optionPath =
     (if glob_sync env assetGlob globPath = [] then
        Inl (AssertionError (optionPath @ ''.'' @ optionName @ '' object glob found no files ('' @
               base @ '' '' @ assetGlob @ '' '' @ globPath @ '')''))
      else
        Inr (map (\<lambda>globAsset.
                AList.update ''path'' (Str (slash env (path_join env base globAsset)))
                  (AList.delete ''globPath'' (AList.delete ''glob'' t)))
              (glob_sync env assetGlob globPath)))
    \<and> (\<forall>ds. getTagObjects env (Obj t) optionName optionPath = Inr ds \<longrightarrow>
          length ds = length (glob_sync env assetGlob globPath) \<and>
          (\<forall>i < length ds.
             get (ds ! i) ''path'' =
               Str (slash env (path_join env base (glob_sync env assetGlob globPath ! i))) \<and>
             get (ds ! i) ''glob'' = Undefined \<and>
             get (ds ! i) ''globPath'' = Undefined \<and>
             (\<forall>k. k \<noteq> ''path'' \<and> k \<noteq> ''glob'' \<and> k \<noteq> ''globPath'' \<longrightarrow>
                  get (ds ! i) k = get t k)))"
proof -
  let ?expanded = "map (\<lambda>globAsset.
                AList.update ''path'' (Str (slash env (path_join env base globAsset)))
                  (AList.delete ''globPath'' (AList.delete ''glob'' t)))
              (glob_sync env assetGlob globPath)"
  have eq: "getTagObjects env (Obj t) optionName optionPath =
     (if glob_sync env assetGlob globPath = [] then
        Inl (AssertionError (optionPath @ ''.'' @ optionName @ '' object glob found no files ('' @
               base @ '' '' @ assetGlob @ '' '' @ globPath @ '')''))
      else Inr ?expanded)"
    using chk p g gp
    by (simp add: getTagObjects_def isDefined_def to_str_def Let_def)
  have props: "length ds = length (glob_sync env assetGlob globPath) \<and>
          (\<forall>i < length ds.
             get (ds ! i) ''path'' =
               Str (slash env (path_join env base (glob_sync env assetGlob globPath ! i))) \<and>
             get (ds ! i) ''glob'' = Undefined \<and>
             get (ds ! i) ''globPath'' = Undefined \<and>
             (\<forall>k. k \<noteq> ''path'' \<and> k \<noteq> ''glob'' \<and> k \<noteq> ''globPath'' \<longrightarrow>
                  get (ds ! i) k = get t k))"
    if r: "getTagObjects env (Obj t) optionName optionPath = Inr ds" for ds
  proof -
    from r eq have ds: "ds = ?expanded"
      by (simp split: if_splits)
    show ?thesis
      by (simp add: ds get_update get_delete)
  qed
  from eq props show ?thesis by blast
qed

theorem getTagObjects_glob_witness:
  "getTagObjects example_env (Obj vendor_tag) ''tags'' ''o'' =
     Inr [[(''path'', Str ''vendor/a.js''), (''append'', Bool False)],
          [(''path'', Str ''vendor/b.js''), (''append'', Bool False)]]"
proof -
  have chk: "checkTagFields example_env vendor_tag ''tags'' ''o'' = None"
    by (simp add: checkTagFields_def vendor_tag_def get_def isString_def isDefined_def isBoolean_def)
  have p: "get vendor_tag ''path'' = Str ''vendor''" by (simp add: vendor_tag_def get_def)
  have g: "get vendor_tag ''glob'' = Str ''*.js''" by (simp add: vendor_tag_def get_def)
  have gp: "get vendor_tag ''globPath'' = Str ''/libs''" by (simp add: vendor_tag_def get_def)
  show ?thesis
    using getTagObjects_glob [OF chk p g gp, THEN conjunct1]
    by (simp add: example_env_def vendor_tag_def)
qed

section \<open>Properties of the option aggregator\<close>

lemma callFn_strings: "\<exists>r. callFn env f (Str a) (Str b) = Inr r"
  by (induction f arbitrary: a b) (simp_all add: js_path_join_def)

lemma isFunctionReturningString_total: "\<exists>b. isFunctionReturningString env v = Inr b"
proof (cases v)
  case (Fun f)
  obtain r where "callFn env f (Str []) (Str []) = Inr r"
    using callFn_strings by blast
  with Fun show ?thesis
    by (simp add: isFunctionReturningString_def isFunction_def call_def)
qed (auto simp: isFunctionReturningString_def isFunction_def)

lemma isFunctionReturningString_not_Inl [simp]: "isFunctionReturningString env v \<noteq> Inl e"
  using isFunctionReturningString_total [of env v] by auto

lemma processShortcuts_conflict:
  assumes "isDefined (get options keyShortcut)"
    and "isDefined (get options keyUse) \<or> isDefined (get options keyAdd)"
  shows "processShortcuts env options optionPath keyShortcut keyUse keyAdd add =
     Inl (AssertionError (optionPath @ ''.'' @ keyShortcut @ '' should not be used with either '' @
            keyUse @ '' or '' @ keyAdd))"
  using assms by (simp add: processShortcuts_def)

lemma processShortcuts_outcome:
  assumes "isFunction add"
  shows "(\<exists>msg. processShortcuts env options optionPath keyShortcut keyUse keyAdd add = Inl (AssertionError msg))
       \<or> (\<exists>r. processShortcuts env options optionPath keyShortcut keyUse keyAdd add = Inr r)"
proof -
  obtain f where f: "add = Fun f"
    using assms by (cases add) (simp_all add: isFunction_def)
  show ?thesis
    by (auto simp: processShortcuts_def f Let_def split: sum.splits bool.splits jsval.splits)
qed

lemma getValidatedMainOptions_conflict:
  assumes "(isDefined (get opts ''publicPath'') \<and>
              (isDefined (get opts ''usePublicPath'') \<or> isDefined (get opts ''addPublicPath'')))
         \<or> (isDefined (get opts ''hash'') \<and>
              (isDefined (get opts ''useHash'') \<or> isDefined (get opts ''addHash'')))"
  shows "\<exists>msg. getValidatedMainOptions env (Obj opts) optionPath DEFAULT_OPTIONS = Inl (AssertionError msg)"
proof (cases "isDefined (get opts ''append'') \<and> \<not> isBoolean (get opts ''append'')")
  case True
  then show ?thesis by (simp add: getValidatedMainOptions_def)
next
  case app: False
  have fp: "isFunction (get DEFAULT_OPTIONS ''addPublicPath'')"
    by (simp add: DEFAULT_OPTIONS_def get_def isFunction_def)
  show ?thesis
  proof (cases "isDefined (get opts ''publicPath'') \<and>
              (isDefined (get opts ''usePublicPath'') \<or> isDefined (get opts ''addPublicPath''))")
    case True
    then show ?thesis
      using app
      by (simp add: getValidatedMainOptions_def processShortcuts_conflict del: append_assoc)
  next
    case False
    with assms have h: "isDefined (get opts ''hash'')"
       "isDefined (get opts ''useHash'') \<or> isDefined (get opts ''addHash'')" by auto
    from processShortcuts_outcome [OF fp, of env opts optionPath "''publicPath''" "''usePublicPath''" "''addPublicPath''"]
    show ?thesis
    proof
      assume "\<exists>msg. processShortcuts env opts optionPath ''publicPath'' ''usePublicPath'' ''addPublicPath''
          (get DEFAULT_OPTIONS ''addPublicPath'') = Inl (AssertionError msg)"
      then show ?thesis using app by (auto simp: getValidatedMainOptions_def)
    next
      assume "\<exists>r. processShortcuts env opts optionPath ''publicPath'' ''usePublicPath'' ''addPublicPath''
          (get DEFAULT_OPTIONS ''addPublicPath'') = Inr r"
      then obtain r where "processShortcuts env opts optionPath ''publicPath'' ''usePublicPath'' ''addPublicPath''
          (get DEFAULT_OPTIONS ''addPublicPath'') = Inr r" ..
      then show ?thesis using app h
        by (simp add: getValidatedMainOptions_def processShortcuts_conflict Let_def del: append_assoc)
    qed
  qed
qed

text \<open>
  Claim C6. An options object that defines the shorthand \<open>publicPath\<close> together with
  \<open>usePublicPath\<close> or \<open>addPublicPath\<close>, or the shorthand \<open>hash\<close> together with \<open>useHash\<close> or
  \<open>addHash\<close>, is rejected with an assertion, by \<open>getValidatedOptions\<close> and so by the
  plugin's constructor.
\<close>

theorem shorthand_exclusive:
  assumes "(isDefined (get opts ''publicPath'') \<and>
              (isDefined (get opts ''usePublicPath'') \<or> isDefined (get opts ''addPublicPath'')))
         \<or> (isDefined (get opts ''hash'') \<and>
              (isDefined (get opts ''useHash'') \<or> isDefined (get opts ''addHash'')))"
  shows "(\<exists>msg. getValidatedOptions env (Obj opts) optionPath = Inl (AssertionError msg)) \<and>
         (\<exists>msg. HtmlWebpackTagsPlugin env (Obj opts) = Inl (AssertionError msg))"
proof -
  have fails: "\<exists>msg. getValidatedOptions env (Obj opts) p = Inl (AssertionError msg)" for p
    using getValidatedMainOptions_conflict [OF assms, of env p]
    by (auto simp: getValidatedOptions_def)
  obtain msg where "getValidatedOptions env (Obj opts) (PLUGIN_NAME @ ''.options'') = Inl (AssertionError msg)"
    using fails by blast
  then have "HtmlWebpackTagsPlugin env (Obj opts) = Inl (AssertionError msg)"
    by (simp add: HtmlWebpackTagsPlugin_def getAllValidatedOptions_def)
  with fails show ?thesis by blast
qed

theorem shorthand_exclusive_witness:
  "(\<exists>msg. getValidatedOptions example_env
            (Obj [(''hash'', Bool True), (''addHash'', Fun (UserFn 1)), (''tags'', Str ''a.js'')]) ''o'' =
          Inl (AssertionError msg)) \<and>
   getValidatedOptions example_env
     (Obj [(''hash'', Bool True), (''addHash'', Fun (UserFn 1)), (''tags'', Str ''a.js'')]) ''o'' =
     Inl (AssertionError ''o.hash should not be used with either useHash or addHash'')"
proof -
  have h: "(isDefined (get [(''hash'', Bool True), (''addHash'', Fun (UserFn 1)), (''tags'', Str ''a.js'')] ''publicPath'') \<and>
              (isDefined (get [(''hash'', Bool True), (''addHash'', Fun (UserFn 1)), (''tags'', Str ''a.js'')] ''usePublicPath'') \<or>
               isDefined (get [(''hash'', Bool True), (''addHash'', Fun (UserFn 1)), (''tags'', Str ''a.js'')] ''addPublicPath'')))
         \<or> (isDefined (get [(''hash'', Bool True), (''addHash'', Fun (UserFn 1)), (''tags'', Str ''a.js'')] ''hash'') \<and>
              (isDefined (get [(''hash'', Bool True), (''addHash'', Fun (UserFn 1)), (''tags'', Str ''a.js'')] ''useHash'') \<or>
               isDefined (get [(''hash'', Bool True), (''addHash'', Fun (UserFn 1)), (''tags'', Str ''a.js'')] ''addHash'')))"
    by (simp add: get_def isDefined_def)
  have "getValidatedOptions example_env
     (Obj [(''hash'', Bool True), (''addHash'', Fun (UserFn 1)), (''tags'', Str ''a.js'')]) ''o'' =
     Inl (AssertionError ''o.hash should not be used with either useHash or addHash'')"
    by (simp add: getValidatedOptions_def getValidatedMainOptions_def processShortcuts_def get_def
        isDefined_def DEFAULT_OPTIONS_def)
  with shorthand_exclusive [OF h, of example_env "''o''"] show ?thesis by simp
qed











text \<open>
  Claim C1. With the default extension lists the pattern for scripts is \<open>.*(.js)$\<close>, in which
  the dot of \<open>.js\<close> is the wildcard: the path \<open>a.mjs\<close> is classified as a script, with no
  assertion, by \<open>splitLinkScriptTags\<close> and so by \<open>getValidatedOptions\<close>.
\<close>

theorem splitLinkScriptTags_mjs:
  "splitLinkScriptTags env [[(''path'', Str ''a.mjs''), (''append'', Bool True)]] [(''tags'', Str ''a.mjs'')]
     ''tags'' optionPath =
     Inr ([], [[(''path'', Str ''a.mjs''), (''append'', Bool True)]]) \<and>
   (\<exists>r. getValidatedOptions env (Obj [(''tags'', Str ''a.mjs'')]) optionPath = Inr r \<and>
        links r = [] \<and> scripts r = [[(''path'', Str ''a.mjs''), (''append'', Bool True)]])"
proof -
  have split: "splitLinkScriptTags env [[(''path'', Str ''a.mjs''), (''append'', Bool True)]]
      [(''tags'', Str ''a.mjs'')] ''tags'' optionPath =
     Inr ([], [[(''path'', Str ''a.mjs''), (''append'', Bool True)]])"
    by (simp add: splitLinkScriptTags_def getAssetTypeCheckers_def getHasExtensions_def
        getExtensions_def get_def DEFAULT_OPTIONS_def isDefined_def createExtensionsRegex_def
        to_str_def consAtom_def isSyntaxCharacter_def isAssetType_def matchGroupEnd_def
        isLineTerminator_def)
  have main: "getValidatedMainOptions env (Obj [(''tags'', Str ''a.mjs'')]) optionPath DEFAULT_OPTIONS =
      Inr DEFAULT_OPTIONS"
    by (simp add: getValidatedMainOptions_def processShortcuts_def get_def isDefined_def
        DEFAULT_OPTIONS_def)
  have app: "get DEFAULT_OPTIONS ''append'' = Bool True"
    by (simp add: DEFAULT_OPTIONS_def get_def)
  have tags: "getAllTagObjects env [(''tags'', Str ''a.mjs'')] (Bool True) ''tags'' optionPath =
      Inr (Some [[(''path'', Str ''a.mjs''), (''append'', Bool True)]])"
    by (simp add: getAllTagObjects_def getValidatedTagObjects_def getTagObjects_def get_def
        isDefined_def isString_def)
  have tb: "tagsBlock env [(''tags'', Str ''a.mjs'')] (Bool True) optionPath =
      Inr ([], [[(''path'', Str ''a.mjs''), (''append'', Bool True)]])"
    by (simp add: tagsBlock_def tags split checkExternal_def)
       (simp add: get_def isDefined_def)
  have lb: "surfaceBlock env [(''tags'', Str ''a.mjs'')] (Bool True) ''links'' False optionPath = Inr []"
    and sb: "surfaceBlock env [(''tags'', Str ''a.mjs'')] (Bool True) ''scripts'' True optionPath = Inr []"
    by (simp_all add: surfaceBlock_def get_def isDefined_def)
  have "\<exists>r. getValidatedOptions env (Obj [(''tags'', Str ''a.mjs'')]) optionPath = Inr r \<and>
        links r = [] \<and> scripts r = [[(''path'', Str ''a.mjs''), (''append'', Bool True)]]"
    by (simp add: getValidatedOptions_def main app tb lb sb)
  with split show ?thesis by simp
qed

section \<open>Properties of the path resolver\<close>

lemma path_step_cases:
  "(if isDefined v then
      (case v of Bool True \<Rightarrow> call env add path arg | Fun f \<Rightarrow> call env v path arg | _ \<Rightarrow> Inr path)
    else if use then call env add path arg else Inr path) =
   (case v of
      Undefined \<Rightarrow> if use then call env add path arg else Inr path
    | Bool True \<Rightarrow> call env add path arg
    | Fun f \<Rightarrow> call env (Fun f) path arg
    | _ \<Rightarrow> Inr path)"
  by (cases v) (simp_all add: isDefined_def)

text \<open>
  Claim C4. \<open>getTagPath\<close> is the public-path step on the descriptor's path, then the hash
  step on the result of the public-path step, then \<open>slash\<close>; an error of a step ends the
  resolution. So with \<open>publicPath: true\<close> and \<open>hash: true\<close> and two user functions as
  \<open>addPublicPath\<close> and \<open>addHash\<close>, the hash function gets the path that the public-path
  function returned.
\<close>

theorem getTagPath_public_path_then_hash:
  "getTagPath env tagObject options webpackPublicPath compilationHash =
     (case spec_publicPathStep env tagObject options webpackPublicPath (get tagObject ''path'') of
        Inl e \<Rightarrow> Inl e
      | Inr path1 \<Rightarrow>
          (case spec_hashStep env tagObject options compilationHash path1 of
             Inl e \<Rightarrow> Inl e
           | Inr path2 \<Rightarrow> js_slash env path2))
   \<and> (get tagObject ''publicPath'' = Bool True \<and> get tagObject ''hash'' = Bool True \<and>
        addPublicPath options = Fun (UserFn f) \<and> addHash options = Fun (UserFn g) \<longrightarrow>
          getTagPath env tagObject options webpackPublicPath compilationHash =
            js_slash env
              (user_fn env g (user_fn env f (get tagObject ''path'') webpackPublicPath) compilationHash))"
proof (intro conjI impI)
  show "getTagPath env tagObject options webpackPublicPath compilationHash =
     (case spec_publicPathStep env tagObject options webpackPublicPath (get tagObject ''path'') of
        Inl e \<Rightarrow> Inl e
      | Inr path1 \<Rightarrow>
          (case spec_hashStep env tagObject options compilationHash path1 of
             Inl e \<Rightarrow> Inl e
           | Inr path2 \<Rightarrow> js_slash env path2))"
    unfolding getTagPath_def spec_publicPathStep_def spec_hashStep_def Let_def path_step_cases
    by (rule refl)
next
  assume "get tagObject ''publicPath'' = Bool True \<and> get tagObject ''hash'' = Bool True \<and>
        addPublicPath options = Fun (UserFn f) \<and> addHash options = Fun (UserFn g)"
  then show "getTagPath env tagObject options webpackPublicPath compilationHash =
            js_slash env
              (user_fn env g (user_fn env f (get tagObject ''path'') webpackPublicPath) compilationHash)"
    by (simp add: getTagPath_def isDefined_def call_def)
qed

text \<open>
  The example of the claim: \<open>addPublicPath = (p, b) => b + p\<close>, the runtime public path
  \<open>/cdn/\<close>, \<open>addHash = (p, h) => p + '?' + h\<close> and the runtime hash \<open>abc123\<close> resolve the path
  \<open>a.js\<close> to \<open>/cdn/a.js?abc123\<close>.
\<close>

theorem getTagPath_public_path_then_hash_witness:
  "getTagPath example_env cdn_tag cdn_options (Str ''/cdn/'') (Str ''abc123'') = Inr ''/cdn/a.js?abc123''"
proof -
  have h: "get cdn_tag ''publicPath'' = Bool True \<and> get cdn_tag ''hash'' = Bool True \<and>
        addPublicPath cdn_options = Fun (UserFn 0) \<and> addHash cdn_options = Fun (UserFn 1)"
    by (simp add: cdn_tag_def cdn_options_def get_def)
  have p: "get cdn_tag ''path'' = Str ''a.js''"
    by (simp add: cdn_tag_def get_def)
  from getTagPath_public_path_then_hash [of example_env cdn_tag cdn_options "Str ''/cdn/''"
      "Str ''abc123''" 0 1] h
  have "getTagPath example_env cdn_tag cdn_options (Str ''/cdn/'') (Str ''abc123'') =
      js_slash example_env
        (user_fn example_env 1 (user_fn example_env 0 (get cdn_tag ''path'') (Str ''/cdn/'')) (Str ''abc123''))"
    by blast
  then show ?thesis
    by (simp add: p example_env_def example_to_string_def js_slash_def)
qed

lemma sum_case_pair:
  "(case x of
      Inl e \<Rightarrow> (t, Inl e)
    | Inr p \<Rightarrow> (case y p of Inl e \<Rightarrow> (t, Inl e) | Inr q \<Rightarrow> (t, z q))) =
   (t, case x of Inl e \<Rightarrow> Inl e | Inr p \<Rightarrow> (case y p of Inl e \<Rightarrow> Inl e | Inr q \<Rightarrow> z q))"
  by (cases x; cases "y (projr x)") simp_all

text \<open>
  Claim C9. A resolution leaves the descriptor it was called on as it was. So a second
  resolution, on the descriptor as the first one left it and with the same options,
  runtime public path and runtime hash, returns what the first returned: the second
  starts from the descriptor's declared \<open>path\<close>, not from the path that the first
  resolved, and no transform is applied on top of an earlier one. The result of
  \<open>getTagPathOn\<close> is that of \<open>getTagPath\<close>. The user's transform functions are pure, as the
  environment has them.
\<close>

theorem getTagPathOn_twice:
  "fst (getTagPathOn env tagObject options webpackPublicPath compilationHash) = tagObject \<and>
   snd (getTagPathOn env
          (fst (getTagPathOn env tagObject options webpackPublicPath compilationHash))
          options webpackPublicPath compilationHash) =
     snd (getTagPathOn env tagObject options webpackPublicPath compilationHash) \<and>
   snd (getTagPathOn env tagObject options webpackPublicPath compilationHash) =
     getTagPath env tagObject options webpackPublicPath compilationHash"
proof -
  have pair: "getTagPathOn env t options webpackPublicPath compilationHash =
      (t, getTagPath env t options webpackPublicPath compilationHash)" for t
    unfolding getTagPathOn_def getTagPath_def Let_def by (rule sum_case_pair)
  show ?thesis
    by (simp add: pair)
qed

text \<open>
  The example of claim C4 resolved twice: the second resolution gives \<open>/cdn/a.js?abc123\<close>
  again, and the descriptor still has the path \<open>a.js\<close>.
\<close>

theorem getTagPathOn_twice_witness:
  "snd (getTagPathOn example_env
          (fst (getTagPathOn example_env cdn_tag cdn_options (Str ''/cdn/'') (Str ''abc123'')))
          cdn_options (Str ''/cdn/'') (Str ''abc123'')) = Inr ''/cdn/a.js?abc123'' \<and>
   get (fst (getTagPathOn example_env cdn_tag cdn_options (Str ''/cdn/'') (Str ''abc123''))) ''path'' =
     Str ''a.js''"
proof -
  have r: "getTagPath example_env cdn_tag cdn_options (Str ''/cdn/'') (Str ''abc123'') =
      Inr ''/cdn/a.js?abc123''"
    by code_simp
  have p: "get cdn_tag ''path'' = Str ''a.js''"
    by (simp add: cdn_tag_def get_def)
  from getTagPathOn_twice [of example_env cdn_tag cdn_options "Str ''/cdn/''" "Str ''abc123''"] r p
  show ?thesis by simp
qed

section \<open>Properties of the injection coordinator\<close>

lemma checkExternal_link:
  "checkExternal False optionName optionPath t =
     (if isDefined (get t ''external'') then
        Some (AssertionError (optionPath @ ''.'' @ optionName @ ''.external should not be used on non script tags''))
      else None)"
  by (simp add: checkExternal_def)

lemma checkExternal_script:
  "checkExternal True optionName optionPath t = None \<longleftrightarrow>
     \<not> isDefined (get t ''external'') \<or> hasValidExternal t"
  by (auto simp: checkExternal_def hasValidExternal_def Let_def isDefined_def split: jsval.splits)

lemma validateTagObjectExternals_link:
  assumes "t \<in> set ts" and "isDefined (get t ''external'')"
  shows "validateTagObjectExternals ts False optionName optionPath =
     Some (AssertionError (optionPath @ ''.'' @ optionName @ ''.external should not be used on non script tags''))"
  using assms by (induction ts) (auto simp: checkExternal_link)

lemma validateTagObjectExternals_None:
  "validateTagObjectExternals ts isScript optionName optionPath = None \<longleftrightarrow>
     (\<forall>t \<in> set ts. checkExternal isScript optionName optionPath t = None)"
  by (induction ts) (auto split: option.splits)

lemma surfaceBlock_link_external:
  assumes "getAllTagObjects env opts a ''links'' optionPath = Inr (Some ts)"
    and "t \<in> set ts" and "isDefined (get t ''external'')"
  shows "surfaceBlock env opts a ''links'' False optionPath =
     Inl (AssertionError (optionPath @ ''.links.external should not be used on non script tags''))"
proof -
  have "isDefined (get opts ''links'')"
    using assms(1)
    by (auto simp: getAllTagObjects_def getValidatedTagObjects_def Let_def split: if_splits)
  then show ?thesis
    using assms(1) validateTagObjectExternals_link [OF assms(2,3), of "''links''" optionPath]
    by (simp add: surfaceBlock_def)
qed

lemma tagsBlock_externals:
  assumes "tagsBlock env opts a optionPath = Inr (ls, ss)"
  shows "(\<forall>t \<in> set ls. \<not> isDefined (get t ''external'')) \<and>
         (\<forall>t \<in> set ss. \<not> isDefined (get t ''external'') \<or> hasValidExternal t)"
proof (cases "isDefined (get opts ''tags'')")
  case True
  with assms have "validateTagObjectExternals ls False ''tags'' optionPath = None"
    and "validateTagObjectExternals ss True ''tags'' optionPath = None"
    by (auto simp: tagsBlock_def split: sum.splits option.splits)
  then show ?thesis
    by (auto simp: validateTagObjectExternals_None checkExternal_link checkExternal_script
        split: if_splits)
next
  case False
  with assms show ?thesis by (simp add: tagsBlock_def)
qed

lemma surfaceBlock_externals:
  assumes "surfaceBlock env opts a optionName isScript optionPath = Inr ts"
  shows "\<forall>t \<in> set ts. checkExternal isScript optionName optionPath t = None"
proof (cases "isDefined (get opts optionName)")
  case True
  with assms have "validateTagObjectExternals ts isScript optionName optionPath = None"
    by (auto simp: surfaceBlock_def split: sum.splits option.splits)
  then show ?thesis by (simp add: validateTagObjectExternals_None)
next
  case False
  with assms show ?thesis by (simp add: surfaceBlock_def)
qed

lemma getValidatedOptions_blocks:
  assumes "getValidatedOptions env (Obj opts) optionPath = Inr r"
  shows "\<exists>a tagLinks tagScripts linkObjects scriptObjects.
     tagsBlock env opts a optionPath = Inr (tagLinks, tagScripts) \<and>
     surfaceBlock env opts a ''links'' False optionPath = Inr linkObjects \<and>
     surfaceBlock env opts a ''scripts'' True optionPath = Inr scriptObjects \<and>
     links r = tagLinks @ linkObjects \<and> scripts r = tagScripts @ scriptObjects"
proof -
  from assms obtain main tagLinks tagScripts linkObjects scriptObjects where
    tb: "tagsBlock env opts (get main ''append'') optionPath = Inr (tagLinks, tagScripts)"
    and lb: "surfaceBlock env opts (get main ''append'') ''links'' False optionPath = Inr linkObjects"
    and sb: "surfaceBlock env opts (get main ''append'') ''scripts'' True optionPath = Inr scriptObjects"
    and l: "links r = tagLinks @ linkObjects"
    and s: "scripts r = tagScripts @ scriptObjects"
    unfolding getValidatedOptions_def Let_def
    by (auto split: sum.splits prod.splits)
  then show ?thesis by blast
qed

lemma getValidatedOptions_externals:
  assumes "getValidatedOptions env (Obj opts) optionPath = Inr r"
  shows "(\<forall>t \<in> set (links r). \<not> isDefined (get t ''external'')) \<and>
         (\<forall>t \<in> set (scripts r). \<not> isDefined (get t ''external'') \<or> hasValidExternal t)"
proof -
  from getValidatedOptions_blocks [OF assms] obtain a tagLinks tagScripts linkObjects scriptObjects where
    tb: "tagsBlock env opts a optionPath = Inr (tagLinks, tagScripts)"
    and lb: "surfaceBlock env opts a ''links'' False optionPath = Inr linkObjects"
    and sb: "surfaceBlock env opts a ''scripts'' True optionPath = Inr scriptObjects"
    and l: "links r = tagLinks @ linkObjects" and s: "scripts r = tagScripts @ scriptObjects"
    by blast
  show ?thesis
    using tagsBlock_externals [OF tb] surfaceBlock_externals [OF lb] surfaceBlock_externals [OF sb]
    by (auto simp: l s checkExternal_link checkExternal_script split: if_splits)
qed

lemma addExternal_get:
  "get (addExternal env script externals) k =
     (case get script ''external'' of
        Obj external \<Rightarrow>
          if to_str env (get external ''packageName'') = k then get external ''variableName''
          else get externals k
      | _ \<Rightarrow> get externals k)"
  by (auto simp: addExternal_def get_update split: jsval.splits)

lemma addExternal_skip:
  "\<not> declaresExternal env script k \<Longrightarrow> map_of (addExternal env script externals) k = map_of externals k"
  by (auto simp: addExternal_def declaresExternal_def AList.update_conv' split: jsval.splits)

lemma fold_addExternal_skip:
  "\<forall>u \<in> set ss. \<not> declaresExternal env u k \<Longrightarrow>
   map_of (fold (addExternal env) ss externals) k = map_of externals k"
  by (induction ss arbitrary: externals) (simp_all add: addExternal_skip)

lemma addExternal_declares:
  assumes "get script ''external'' = Obj external"
  shows "map_of (addExternal env script externals) (to_str env (get external ''packageName'')) =
         Some (get external ''variableName'')"
  using assms by (simp add: addExternal_def AList.update_conv')

lemma fold_addExternal_last:
  assumes "get s ''external'' = Obj external"
    and "\<forall>u \<in> set post. \<not> declaresExternal env u (to_str env (get external ''packageName''))"
  shows "map_of (fold (addExternal env) (pre @ s # post) externals) (to_str env (get external ''packageName'')) =
         Some (get external ''variableName'')"
  using assms by (simp add: fold_addExternal_skip addExternal_declares)

text \<open>
  Claim C7, as amended. A descriptor bound to CSS whose \<open>external\<close> is defined fails the
  validation with the assertion of line 212, in \<open>validateTagObjectExternals\<close> and for an
  entry of \<open>links\<close> in the block of lines 304 to 308; so options that pass have no
  \<open>external\<close> on a link and only valid ones on scripts. Scripts whose externals are
  absent or valid pass the validation. The loop of \<open>apply\<close> assigns the variable name of a
  script's external to its package name in the registry, and after \<open>apply\<close> the registry
  maps the package name to that variable name when no later script declares the same
  package; a later script that does overwrites the entry.
\<close>

theorem external_only_on_scripts:
  "(t \<in> set ts \<and> isDefined (get t ''external'') \<longrightarrow>
      validateTagObjectExternals ts False optionName optionPath =
        Some (AssertionError (optionPath @ ''.'' @ optionName @
          ''.external should not be used on non script tags''))) \<and>
   (getAllTagObjects env opts a ''links'' optionPath = Inr (Some ts) \<and> t \<in> set ts \<and>
    isDefined (get t ''external'') \<longrightarrow>
      surfaceBlock env opts a ''links'' False optionPath =
        Inl (AssertionError (optionPath @ ''.links.external should not be used on non script tags''))) \<and>
   (getValidatedOptions env (Obj opts) optionPath = Inr r \<longrightarrow>
      (\<forall>l \<in> set (links r). \<not> isDefined (get l ''external'')) \<and>
      (\<forall>s \<in> set (scripts r). \<not> isDefined (get s ''external'') \<or> hasValidExternal s)) \<and>
   ((\<forall>s \<in> set ts. \<not> isDefined (get s ''external'') \<or> hasValidExternal s) \<longrightarrow>
      validateTagObjectExternals ts True optionName optionPath = None) \<and>
   (scripts r = pre @ s # post \<and> get s ''external'' = Obj external \<and>
    get external ''packageName'' = Str packageName \<and>
    (\<forall>u \<in> set post. \<not> declaresExternal env u packageName) \<longrightarrow>
      map_of (applyExternals env r compilerExternals) packageName =
        Some (get external ''variableName'')) \<and>
   (get s ''external'' = Obj external \<and> get external ''packageName'' = Str packageName \<longrightarrow>
      map_of (addExternal env s externals) packageName = Some (get external ''variableName''))"
proof (intro conjI impI)
  assume "t \<in> set ts \<and> isDefined (get t ''external'')"
  then have "t \<in> set ts" and "isDefined (get t ''external'')"
    by simp_all
  then show "validateTagObjectExternals ts False optionName optionPath =
        Some (AssertionError (optionPath @ ''.'' @ optionName @
          ''.external should not be used on non script tags''))"
    by (rule validateTagObjectExternals_link)
next
  assume "getAllTagObjects env opts a ''links'' optionPath = Inr (Some ts) \<and> t \<in> set ts \<and>
    isDefined (get t ''external'')"
  then show "surfaceBlock env opts a ''links'' False optionPath =
        Inl (AssertionError (optionPath @ ''.links.external should not be used on non script tags''))"
    using surfaceBlock_link_external by blast
next
  assume r: "getValidatedOptions env (Obj opts) optionPath = Inr r"
  from getValidatedOptions_externals [OF r]
  show "\<forall>l \<in> set (links r). \<not> isDefined (get l ''external'')"
    and "\<forall>s \<in> set (scripts r). \<not> isDefined (get s ''external'') \<or> hasValidExternal s"
    by blast+
next
  assume "\<forall>s \<in> set ts. \<not> isDefined (get s ''external'') \<or> hasValidExternal s"
  then show "validateTagObjectExternals ts True optionName optionPath = None"
    by (simp add: validateTagObjectExternals_None checkExternal_script)
next
  assume h: "scripts r = pre @ s # post \<and> get s ''external'' = Obj external \<and>
    get external ''packageName'' = Str packageName \<and>
    (\<forall>u \<in> set post. \<not> declaresExternal env u packageName)"
  then have k: "to_str env (get external ''packageName'') = packageName"
    by (simp add: to_str_def)
  from h show "map_of (applyExternals env r compilerExternals) packageName =
        Some (get external ''variableName'')"
    using fold_addExternal_last [of s external post env pre] k
    by (simp add: applyExternals_def)
next
  assume "get s ''external'' = Obj external \<and> get external ''packageName'' = Str packageName"
  then show "map_of (addExternal env s externals) packageName = Some (get external ''variableName'')"
    using addExternal_declares [of s external env externals] by (simp add: to_str_def)
qed

theorem external_only_on_scripts_witness:
  "getValidatedOptions example_env (Obj external_in_links) ''o'' =
     Inl (AssertionError ''o.links.external should not be used on non script tags'') \<and>
   getValidatedOptions example_env (Obj external_in_scripts) ''o'' = Inr external_scripts_validated \<and>
   list_all hasValidExternal (take 2 (scripts external_scripts_validated)) \<and>
   map_of (applyExternals example_env external_scripts_validated (Some host_externals)) ''jquery'' =
     Some (Str ''jQuery'')"
proof -
  have l: "getValidatedOptions example_env (Obj external_in_links) ''o'' =
     Inl (AssertionError ''o.links.external should not be used on non script tags'')"
    by code_simp
  have e: "getValidatedOptions example_env (Obj external_in_scripts) ''o'' =
     Inr external_scripts_validated"
    by code_simp
  have v: "list_all hasValidExternal (take 2 (scripts external_scripts_validated))"
    by code_simp
  have s: "scripts external_scripts_validated =
      [[(''path'', Str ''jquery.slim.js''),
        (''external'', Obj [(''packageName'', Str ''jquery''), (''variableName'', Str ''$'')]),
        (''append'', Bool True)]] @
      [(''path'', Str ''jquery.js''),
       (''external'', Obj [(''packageName'', Str ''jquery''), (''variableName'', Str ''jQuery'')]),
       (''append'', Bool True)] # [[(''path'', Str ''app.js''), (''append'', Bool True)]]"
    by (simp add: external_scripts_validated_def)
  have x: "get [(''path'', Str ''jquery.js''),
       (''external'', Obj [(''packageName'', Str ''jquery''), (''variableName'', Str ''jQuery'')]),
       (''append'', Bool True)] ''external'' =
      Obj [(''packageName'', Str ''jquery''), (''variableName'', Str ''jQuery'')]"
    and p: "get [(''packageName'', Str ''jquery''), (''variableName'', Str ''jQuery'')] ''packageName'' =
      Str ''jquery''"
    and n: "get [(''packageName'', Str ''jquery''), (''variableName'', Str ''jQuery'')] ''variableName'' =
      Str ''jQuery''"
    and d: "\<forall>u \<in> set [[(''path'', Str ''app.js''), (''append'', Bool True)]].
             \<not> declaresExternal example_env u ''jquery''"
    by (simp_all add: get_def declaresExternal_def)
  have h: "scripts external_scripts_validated =
      [[(''path'', Str ''jquery.slim.js''),
        (''external'', Obj [(''packageName'', Str ''jquery''), (''variableName'', Str ''$'')]),
        (''append'', Bool True)]] @
      [(''path'', Str ''jquery.js''),
       (''external'', Obj [(''packageName'', Str ''jquery''), (''variableName'', Str ''jQuery'')]),
       (''append'', Bool True)] # [[(''path'', Str ''app.js''), (''append'', Bool True)]] \<and>
    get [(''path'', Str ''jquery.js''),
       (''external'', Obj [(''packageName'', Str ''jquery''), (''variableName'', Str ''jQuery'')]),
       (''append'', Bool True)] ''external'' =
      Obj [(''packageName'', Str ''jquery''), (''variableName'', Str ''jQuery'')] \<and>
    get [(''packageName'', Str ''jquery''), (''variableName'', Str ''jQuery'')] ''packageName'' =
      Str ''jquery'' \<and>
    (\<forall>u \<in> set [[(''path'', Str ''app.js''), (''append'', Bool True)]].
       \<not> declaresExternal example_env u ''jquery'')"
    using s x p d by simp
  note last = external_only_on_scripts [where r = external_scripts_validated and env = example_env
      and compilerExternals = "Some host_externals", THEN conjunct2, THEN conjunct2, THEN conjunct2,
      THEN conjunct2, THEN conjunct1, rule_format]
  have "map_of (applyExternals example_env external_scripts_validated (Some host_externals)) ''jquery'' =
     Some (Str ''jQuery'')"
    using last [OF h] n by simp
  with l e v show ?thesis by simp
qed

text \<open>
  The claim as it was stated fails: the first script of the example has a valid
  external, \<open>jquery\<close> to \<open>$\<close>, and passes the validation, but a later script declares
  \<open>jquery\<close> too, and after \<open>apply\<close> the registry maps \<open>jquery\<close> to the later script's
  \<open>jQuery\<close>; the first script's entry is not in the registry.
\<close>

theorem overwritten_external_counterexample:
  "getValidatedOptions example_env (Obj external_in_scripts) ''o'' = Inr external_scripts_validated \<and>
   get (hd (scripts external_scripts_validated)) ''external'' =
     Obj [(''packageName'', Str ''jquery''), (''variableName'', Str ''$'')] \<and>
   hasValidExternal (hd (scripts external_scripts_validated)) \<and>
   applyExternals example_env external_scripts_validated None = [(''jquery'', Str ''jQuery'')] \<and>
   map_of (applyExternals example_env external_scripts_validated None) ''jquery'' \<noteq> Some (Str ''$'')"
proof -
  have e: "getValidatedOptions example_env (Obj external_in_scripts) ''o'' =
     Inr external_scripts_validated"
    by code_simp
  have x: "get (hd (scripts external_scripts_validated)) ''external'' =
     Obj [(''packageName'', Str ''jquery''), (''variableName'', Str ''$'')]"
    by (simp add: external_scripts_validated_def get_def)
  have v: "hasValidExternal (hd (scripts external_scripts_validated))"
    by (simp add: hasValidExternal_def x) (simp add: get_def isString_def)
  have a: "applyExternals example_env external_scripts_validated None = [(''jquery'', Str ''jQuery'')]"
    by code_simp
  from e x v a show ?thesis by simp
qed

text \<open>
  Claim C10. The registry entry of a module name is the variable name of the last script
  that declares it; the entry of a module name that no script declares is the host's
  own, or absent as before.
\<close>

theorem externals_last_wins:
  "(scripts options = pre @ s # post \<and> get s ''external'' = Obj external \<and>
    (\<forall>u \<in> set post. \<not> declaresExternal env u (to_str env (get external ''packageName''))) \<longrightarrow>
      map_of (applyExternals env options compilerExternals) (to_str env (get external ''packageName'')) =
        Some (get external ''variableName'')) \<and>
   ((\<forall>u \<in> set (scripts options). \<not> declaresExternal env u k) \<longrightarrow>
      map_of (applyExternals env options compilerExternals) k =
        map_of (case compilerExternals of None \<Rightarrow> [] | Some e \<Rightarrow> e) k)"
  by (auto simp: applyExternals_def fold_addExternal_skip addExternal_declares)

theorem externals_last_wins_witness:
  "applyExternals example_env external_scripts_validated (Some host_externals) =
     [(''react'', Str ''React''), (''jquery'', Str ''jQuery'')] \<and>
   map_of (applyExternals example_env external_scripts_validated (Some host_externals)) ''react'' =
     map_of host_externals ''react''"
proof -
  have a: "applyExternals example_env external_scripts_validated (Some host_externals) =
     [(''react'', Str ''React''), (''jquery'', Str ''jQuery'')]"
    by code_simp
  have d: "\<forall>u \<in> set (scripts external_scripts_validated). \<not> declaresExternal example_env u ''react''"
    by (simp add: external_scripts_validated_def declaresExternal_def get_def to_str_def)
  from externals_last_wins [where options = external_scripts_validated and env = example_env
      and compilerExternals = "Some host_externals" and k = "''react''"] d
  have "map_of (applyExternals example_env external_scripts_validated (Some host_externals)) ''react'' =
     map_of host_externals ''react''"
    by simp
  with a show ?thesis by simp
qed

text \<open>
  Claim C8. With a \<open>files\<close> list none of whose patterns matches the document's output
  name, both hooks hand the document back as it came: the asset lists and the tags are
  the document's own, no source file is registered, and the hook ends by calling the
  callback with the document, or by returning a promise of it.
\<close>

theorem skipped_document_unchanged:
  assumes "files options = Some patterns"
    and "\<forall>file \<in> set patterns. \<not> minimatch env (outputName htmlPluginData) file"
  shows "onBeforeHtmlGeneration env options compilationHash htmlPluginData callback =
           \<lparr> document = htmlPluginData, registered = [],
             ending = (if callback then CallbackCalled None (Some htmlPluginData)
                       else PromiseResolved htmlPluginData) \<rparr> \<and>
         onAlterAssetTag env options htmlPluginData callback =
           \<lparr> document = htmlPluginData, registered = [],
             ending = (if callback then CallbackCalled None (Some htmlPluginData)
                       else PromiseResolved htmlPluginData) \<rparr>"
proof -
  have "getShouldSkip env (files options) htmlPluginData"
    using assms by (simp add: getShouldSkip_def list_ex_iff)
  then show ?thesis
    by (simp add: onBeforeHtmlGeneration_def onAlterAssetTag_def)
qed

theorem skipped_document_unchanged_witness:
  "document (onBeforeHtmlGeneration example_env index_only_options (Str ''abc123'') other_document True) =
     other_document \<and>
   registered (onBeforeHtmlGeneration example_env index_only_options (Str ''abc123'') other_document True) = [] \<and>
   document (onAlterAssetTag example_env index_only_options other_document True) = other_document \<and>
   js (assets (document
     (onBeforeHtmlGeneration example_env index_only_options (Str ''abc123'') index_document True))) =
     [''/cdn/c.js'', ''main.js'', ''/cdn/a.js'', ''/cdn/s.js'']"
proof -
  have f: "files index_only_options = Some [''index.html'']"
    by (simp add: index_only_options_def)
  have m: "\<forall>file \<in> set [''index.html'']. \<not> minimatch example_env (outputName other_document) file"
    by (simp add: example_env_def other_document_def)
  have i: "js (assets (document
     (onBeforeHtmlGeneration example_env index_only_options (Str ''abc123'') index_document True))) =
     [''/cdn/c.js'', ''main.js'', ''/cdn/a.js'', ''/cdn/s.js'']"
    by code_simp
  from skipped_document_unchanged [OF f m, of "Str ''abc123''" True] i
  show ?thesis by simp
qed

section \<open>Properties of the extension classifier\<close>

lemma matchGroupEnd_matchFrom: "matchGroupEnd r s \<Longrightarrow> matchFrom r s"
  by (cases s) simp_all

lemma matchFrom_suffix: "matchFrom r s \<Longrightarrow> \<exists>pre suf. s = pre @ suf \<and> matchGroupEnd r suf"
proof (induction s)
  case Nil
  then show ?case by simp
next
  case (Cons c cs)
  show ?case
  proof (cases "matchGroupEnd r (c # cs)")
    case True
    then have "c # cs = [] @ (c # cs) \<and> matchGroupEnd r (c # cs)" by simp
    then show ?thesis by blast
  next
    case False
    with Cons.prems have "matchFrom r cs" by simp
    from Cons.IH [OF this] obtain pre suf where "cs = pre @ suf" "matchGroupEnd r suf" by blast
    then have "c # cs = (c # pre) @ suf \<and> matchGroupEnd r suf" by simp
    then show ?thesis by blast
  qed
qed

lemma regexTest_iff: "regexTest r s \<longleftrightarrow> (\<exists>pre suf. s = pre @ suf \<and> matchGroupEnd r suf)"
proof (induction s)
  case Nil
  then show ?case by simp
next
  case (Cons c cs)
  show ?case
  proof
    assume "regexTest r (c # cs)"
    then consider "matchFrom r (c # cs)" | "regexTest r cs" by auto
    then show "\<exists>pre suf. c # cs = pre @ suf \<and> matchGroupEnd r suf"
    proof cases
      case 1
      then show ?thesis by (rule matchFrom_suffix)
    next
      case 2
      with Cons.IH obtain pre suf where "cs = pre @ suf" "matchGroupEnd r suf" by blast
      then have "c # cs = (c # pre) @ suf \<and> matchGroupEnd r suf" by simp
      then show ?thesis by blast
    qed
  next
    assume "\<exists>pre suf. c # cs = pre @ suf \<and> matchGroupEnd r suf"
    then obtain pre suf where ps: "c # cs = pre @ suf" and m: "matchGroupEnd r suf" by blast
    show "regexTest r (c # cs)"
    proof (cases pre)
      case Nil
      with ps m have "matchGroupEnd r (c # cs)" by simp
      then show ?thesis by simp
    next
      case (Cons p pre')
      with ps have "cs = pre' @ suf" by simp
      with m Cons.IH have "regexTest r cs" by blast
      then show ?thesis by simp
    qed
  qed
qed

lemma matchAtoms_iff: "matchAtoms atoms s = Some [] \<longleftrightarrow> list_all2 matchAtom atoms s"
  by (induction atoms s rule: matchAtoms.induct) simp_all

lemma matchGroupEnd_iff:
  "matchGroupEnd r s \<longleftrightarrow> (\<exists>alternative \<in> set r. list_all2 matchAtom alternative s)"
  by (simp add: matchGroupEnd_def list_ex_iff matchAtoms_iff)

lemma regexTest_wildcard_extension:
  "regexTest [AnyChar # map Lit ext] p \<longleftrightarrow> (\<exists>pre c. p = pre @ c # ext \<and> \<not> isLineTerminator c)"
proof -
  have lit: "list_all2 matchAtom (map Lit ext) s \<longleftrightarrow> s = ext" for s
    by (induction ext arbitrary: s) (auto simp: list_all2_Cons1)
  have "list_all2 matchAtom (AnyChar # map Lit ext) s \<longleftrightarrow> (\<exists>c. s = c # ext \<and> \<not> isLineTerminator c)" for s
    by (auto simp: list_all2_Cons1 lit)
  then show ?thesis
    by (auto simp: regexTest_iff matchGroupEnd_iff)
qed

text \<open>
  With the default extension lists, a tag without a \<open>type\<close> is a link when its path ends
  in a character that is no line terminator followed by \<open>css\<close>, else a script when it
  ends in such a character followed by \<open>js\<close>, and else is rejected with the assertion of
  line 107. The match is case-sensitive; the character before \<open>css\<close> or \<open>js\<close> need not
  be a dot.
\<close>

theorem default_classification:
  assumes "\<not> isDefined (get tagObject ''type'')" and "get tagObject ''path'' = Str p"
    and "\<not> isDefined (get options ''jsExtensions'')" and "\<not> isDefined (get options ''cssExtensions'')"
  shows "splitLinkScriptTags env [tagObject] options optionName optionPath =
     (if \<exists>pre c. p = pre @ c # ''css'' \<and> \<not> isLineTerminator c then Inr ([tagObject], [])
      else if \<exists>pre c. p = pre @ c # ''js'' \<and> \<not> isLineTerminator c then Inr ([], [tagObject])
      else Inl (AssertionError (optionPath @ ''.'' @ optionName @
             '' could not determine asset type for ('' @ p @ '')'')))"
proof -
  have js: "get DEFAULT_OPTIONS ''jsExtensions'' = Arr [Str ''.js'']"
    and css: "get DEFAULT_OPTIONS ''cssExtensions'' = Arr [Str ''.css'']"
    by (simp_all add: DEFAULT_OPTIONS_def get_def)
  have rjs: "createExtensionsRegex env (Arr [Str ''.js'']) = Inr [AnyChar # map Lit ''js'']"
    and rcss: "createExtensionsRegex env (Arr [Str ''.css'']) = Inr [AnyChar # map Lit ''css'']"
    by (simp_all add: createExtensionsRegex_def to_str_def consAtom_def isSyntaxCharacter_def)
  have checkers: "getAssetTypeCheckers env options optionPath =
      Inr ([AnyChar # map Lit ''js''], [AnyChar # map Lit ''css''])"
    using assms(3,4)
    by (simp add: getAssetTypeCheckers_def getHasExtensions_def getExtensions_def js css rjs rcss
        del: list.map)
  have c: "isAssetType env [AnyChar # map Lit ''css''] (Str p) \<longleftrightarrow>
       (\<exists>pre c. p = pre @ c # ''css'' \<and> \<not> isLineTerminator c)"
    and j: "isAssetType env [AnyChar # map Lit ''js''] (Str p) \<longleftrightarrow>
       (\<exists>pre c. p = pre @ c # ''js'' \<and> \<not> isLineTerminator c)"
    unfolding isAssetType_def to_str_def jsval.case by (rule regexTest_wildcard_extension)+
  have loop: "splitLoop env ([AnyChar # map Lit ''js''], [AnyChar # map Lit ''css'']) optionName optionPath
       [tagObject] ([], []) =
     (if isAssetType env [AnyChar # map Lit ''css''] (Str p) then Inr ([tagObject], [])
      else if isAssetType env [AnyChar # map Lit ''js''] (Str p) then Inr ([], [tagObject])
      else Inl (AssertionError (optionPath @ ''.'' @ optionName @
             '' could not determine asset type for ('' @ p @ '')'')))"
    using assms(1,2) by (simp add: Let_def to_str_def del: list.map)
  show ?thesis
    unfolding splitLinkScriptTags_def checkers sum.case loop c j by (rule refl)
qed

theorem default_classification_witness:
  "splitLinkScriptTags example_env [[(''path'', Str ''a.css'')]] [] ''tags'' ''o'' =
     Inr ([[(''path'', Str ''a.css'')]], [])"
proof -
  have t: "\<not> isDefined (get [(''path'', Str ''a.css'')] ''type'')"
    and p: "get [(''path'', Str ''a.css'')] ''path'' = Str ''a.css''"
    and j: "\<not> isDefined (get [] ''jsExtensions'')"
    and c: "\<not> isDefined (get [] ''cssExtensions'')"
    by (simp_all add: get_def isDefined_def)
  have "''a.css'' = ''a'' @ CHR ''.'' # ''css'' \<and> \<not> isLineTerminator CHR ''.''"
    by (simp add: isLineTerminator_def)
  then have e: "\<exists>pre c. ''a.css'' = pre @ c # ''css'' \<and> \<not> isLineTerminator c"
    by blast
  show ?thesis
    unfolding default_classification [OF t p j c, of example_env "''tags''" "''o''"]
    using e by simp
qed

section \<open>Further properties\<close>

text \<open>
  A string tag is normalized like the object that has the string as its \<open>path\<close> and no
  other property.
\<close>

theorem string_shorthand:
  "getTagObjects env (Str s) optionName optionPath =
   getTagObjects env (Obj [(''path'', Str s)]) optionName optionPath"
  by (simp add: getTagObjects_def checkTagFields_def get_def isString_def isDefined_def)

lemma mapGetPath_paths:
  assumes "mapGetPath env options pp h tags sources paths = (sources', Inr paths')"
  shows "\<exists>resolved. paths' = paths @ resolved \<and>
           map (\<lambda>tag. getTagPath env tag options pp h) tags = map Inr resolved"
  using assms
proof (induction tags arbitrary: sources paths)
  case Nil
  then show ?case by simp
next
  case (Cons tag tags)
  from Cons.prems obtain path s1 where
    p: "getTagPath env tag options pp h = Inr path"
    and rest: "mapGetPath env options pp h tags s1 (paths @ [path]) = (sources', Inr paths')"
    by (auto simp: Let_def split: sum.splits)
  from Cons.IH [OF rest] obtain resolved where
    "paths' = (paths @ [path]) @ resolved"
    "map (\<lambda>tag. getTagPath env tag options pp h) tags = map Inr resolved"
    by blast
  then have "paths' = paths @ (path # resolved) \<and>
      map (\<lambda>tag. getTagPath env tag options pp h) (tag # tags) = map Inr (path # resolved)"
    using p by simp
  then show ?case by blast
qed

text \<open>
  For a document that is not skipped and whose paths all resolve, the hook
  \<open>onBeforeHtmlGeneration\<close> leaves \<open>assets.js\<close> as the resolved paths of \<open>scriptsPrepend\<close>,
  the document's own scripts and the resolved paths of \<open>scriptsAppend\<close>, in this order,
  and \<open>assets.css\<close> likewise with \<open>linksPrepend\<close> and \<open>linksAppend\<close>.
\<close>

theorem spliced_assets:
  assumes "\<not> getShouldSkip env (files options) d"
    and "\<forall>e. ending (onBeforeHtmlGeneration env options h d callback) \<noteq> Thrown e"
  shows "\<exists>jsPrependPaths jsAppendPaths cssPrependPaths cssAppendPaths.
     map (\<lambda>tag. getTagPath env tag options (publicPath (assets d)) h) (scriptsPrepend options) =
       map Inr jsPrependPaths \<and>
     map (\<lambda>tag. getTagPath env tag options (publicPath (assets d)) h) (scriptsAppend options) =
       map Inr jsAppendPaths \<and>
     map (\<lambda>tag. getTagPath env tag options (publicPath (assets d)) h) (linksPrepend options) =
       map Inr cssPrependPaths \<and>
     map (\<lambda>tag. getTagPath env tag options (publicPath (assets d)) h) (linksAppend options) =
       map Inr cssAppendPaths \<and>
     js (assets (document (onBeforeHtmlGeneration env options h d callback))) =
       jsPrependPaths @ js (assets d) @ jsAppendPaths \<and>
     css (assets (document (onBeforeHtmlGeneration env options h d callback))) =
       cssPrependPaths @ css (assets d) @ cssAppendPaths"
proof -
  let ?run = "mapGetPath env options (publicPath (assets d)) h"
  obtain s1 r1 where r1: "?run (scriptsPrepend options) [] [] = (s1, r1)" by force
  obtain s2 r2 where r2: "?run (scriptsAppend options) s1 [] = (s2, r2)" by force
  obtain s3 r3 where r3: "?run (linksPrepend options) s2 [] = (s3, r3)" by force
  obtain s4 r4 where r4: "?run (linksAppend options) s3 [] = (s4, r4)" by force
  from assms obtain jp where jp: "r1 = Inr jp"
    by (cases r1) (auto simp: onBeforeHtmlGeneration_def Let_def r1)
  from assms obtain ja where ja: "r2 = Inr ja"
    by (cases r2) (auto simp: onBeforeHtmlGeneration_def Let_def r1 jp r2)
  from assms obtain cp where cp: "r3 = Inr cp"
    by (cases r3) (auto simp: onBeforeHtmlGeneration_def Let_def r1 jp r2 ja r3)
  from assms obtain ca where ca: "r4 = Inr ca"
    by (cases r4) (auto simp: onBeforeHtmlGeneration_def Let_def r1 jp r2 ja r3 cp r4)
  have doc: "js (assets (document (onBeforeHtmlGeneration env options h d callback))) =
       jp @ js (assets d) @ ja"
     "css (assets (document (onBeforeHtmlGeneration env options h d callback))) =
       cp @ css (assets d) @ ca"
    using assms(1) by (simp_all add: onBeforeHtmlGeneration_def Let_def r1 jp r2 ja r3 cp r4 ca)
  from mapGetPath_paths [OF r1 [unfolded jp]] mapGetPath_paths [OF r2 [unfolded ja]]
    mapGetPath_paths [OF r3 [unfolded cp]] mapGetPath_paths [OF r4 [unfolded ca]] doc
  show ?thesis by auto
qed

theorem spliced_assets_witness:
  "(\<exists>jsPrependPaths jsAppendPaths.
      js (assets (document
        (onBeforeHtmlGeneration example_env index_only_options (Str ''abc123'') index_document True))) =
      jsPrependPaths @ js (assets index_document) @ jsAppendPaths) \<and>
   js (assets (document
     (onBeforeHtmlGeneration example_env index_only_options (Str ''abc123'') index_document True))) =
     [''/cdn/c.js'', ''main.js'', ''/cdn/a.js'', ''/cdn/s.js''] \<and>
   css (assets (document
     (onBeforeHtmlGeneration example_env index_only_options (Str ''abc123'') index_document True))) =
     [''/cdn/b.css'', ''/cdn/y.css'', ''main.css'', ''/cdn/d'', ''/cdn/z.css'']"
proof -
  have skip: "\<not> getShouldSkip example_env (files index_only_options) index_document"
    by code_simp
  have "case ending (onBeforeHtmlGeneration example_env index_only_options (Str ''abc123'')
      index_document True) of Thrown e \<Rightarrow> False | _ \<Rightarrow> True"
    by code_simp
  then have ok: "\<forall>e. ending (onBeforeHtmlGeneration example_env index_only_options (Str ''abc123'')
      index_document True) \<noteq> Thrown e"
    by auto
  have j: "js (assets (document
     (onBeforeHtmlGeneration example_env index_only_options (Str ''abc123'') index_document True))) =
     [''/cdn/c.js'', ''main.js'', ''/cdn/a.js'', ''/cdn/s.js'']"
    and c: "css (assets (document
     (onBeforeHtmlGeneration example_env index_only_options (Str ''abc123'') index_document True))) =
     [''/cdn/b.css'', ''/cdn/y.css'', ''main.css'', ''/cdn/d'', ''/cdn/z.css'']"
    by code_simp+
  from spliced_assets [OF skip ok] have "\<exists>jsPrependPaths jsAppendPaths.
      js (assets (document
        (onBeforeHtmlGeneration example_env index_only_options (Str ''abc123'') index_document True))) =
      jsPrependPaths @ js (assets index_document) @ jsAppendPaths"
    by blast
  with j c show ?thesis by blast
qed

end
